theory Spec2Isabelle
  imports Main "HOL-Library.Word"
begin

section \<open>The foreign runtime, as the wrapper sees it\<close>

text \<open>
  \<^verbatim>\<open>JniHelper.hpp\<close> is a header over \<^verbatim>\<open>jni.h\<close>, which is not part of the repository.
  Every \<^verbatim>\<open>env->F(...)\<close> of the source is a call into the foreign runtime; the runtime is a
  parameter of the model. Handles (\<^verbatim>\<open>jobject\<close>, \<^verbatim>\<open>jclass\<close>, \<^verbatim>\<open>jstring\<close>,
  \<^verbatim>\<open>jthrowable\<close>) and identifiers (\<^verbatim>\<open>jmethodID\<close>, \<^verbatim>\<open>jfieldID\<close>) are pointers: natural
  numbers, with \<open>0\<close> for \<^verbatim>\<open>nullptr\<close>.
\<close>

type_synonym jobject = nat

abbreviation nullptr :: jobject where
  "nullptr \<equiv> 0"

text \<open>
  The \<^verbatim>\<open>jvalue\<close> union, tagged with the member that was written: \<^verbatim>\<open>z\<close> (jboolean, 8 bit),
  \<^verbatim>\<open>b\<close> (jbyte), \<^verbatim>\<open>c\<close> (jchar, 16 bit), \<^verbatim>\<open>s\<close> (jshort), \<^verbatim>\<open>i\<close> (jint), \<^verbatim>\<open>j\<close> (jlong),
  \<^verbatim>\<open>f\<close> and \<^verbatim>\<open>d\<close> (jfloat and jdouble, as their bit patterns: the wrapper only copies them)
  and \<^verbatim>\<open>l\<close> (a reference).
\<close>

datatype jvalue =
    JZ "8 word" | JB "8 word" | JC "16 word" | JS "16 word" | JI "32 word" | JJ "64 word"
  | JF "32 word" | JD "64 word" | JL jobject

text \<open>The type in the name of a primitive: \<^verbatim>\<open>CallIntMethodA\<close>, \<^verbatim>\<open>GetStaticObjectField\<close>, ...\<close>

datatype jni_family =
  FObject | FBoolean | FByte | FChar | FShort | FInt | FLong | FFloat | FDouble | FVoid

text \<open>
  One constructor for each function of \<^verbatim>\<open>JNIEnv\<close> that the header calls, with its arguments.
  A cell of an argument array is \<open>None\<close> while nothing has been written to it.
  \<open>ECallMethod\<close> is \<^verbatim>\<open>Call<Type>Method(obj, mid)\<close> with no variadic argument, \<open>ECallMethodA\<close>
  is \<^verbatim>\<open>Call<Type>MethodA(obj, mid, args)\<close>.
\<close>

datatype jcall =
    EFindClass string
  | EGetObjectClass jobject
  | EGetMethodID jobject string string
  | EGetStaticMethodID jobject string string
  | EGetFieldID jobject string string
  | EGetStaticFieldID jobject string string
  | EGetField jni_family jobject nat
  | EGetStaticField jni_family jobject nat
  | ECallMethod jni_family jobject nat
  | ECallStaticMethod jni_family jobject nat
  | ECallMethodA jni_family jobject nat "jvalue option list"
  | ECallStaticMethodA jni_family jobject nat "jvalue option list"
  | ENewObjectA jobject nat "jvalue option list"
  | ENewStringUTF string
  | EGetStringUTFChars jobject
  | EReleaseStringUTFChars jobject string
  | EDeleteLocalRef jobject
  | EExceptionCheck
  | EExceptionOccurred
  | EExceptionDescribe
  | EExceptionClear

text \<open>What a primitive returns: nothing, a value, or a character buffer (\<open>None\<close> for \<^verbatim>\<open>NULL\<close>).\<close>

datatype jret = RVoid | RVal jvalue | RChars "string option"

fun ret_ref :: "jret \<Rightarrow> jobject" where
  "ret_ref (RVal (JL h)) = h"
| "ret_ref _ = nullptr"

fun ret_chars :: "jret \<Rightarrow> string option" where
  "ret_chars (RChars c) = c"
| "ret_chars _ = None"

text \<open>
  The state behind a \<^verbatim>\<open>JNIEnv*\<close>: the runtime's own state \<open>heap\<close> (any type), the pending
  foreign exception of the thread (\<open>nullptr\<close> when none is pending) and the calls made
  through this environment so far, oldest first.
\<close>

record 'h JNIEnv =
  heap :: 'h
  pending :: jobject
  trace :: "jcall list"

text \<open>
  A runtime answers a call, in a heap and with a pending exception, with the value returned,
  the new heap and the pending exception after the call.
\<close>

type_synonym 'h runtime = "jcall \<Rightarrow> 'h \<Rightarrow> jobject \<Rightarrow> jret \<times> 'h \<times> jobject"

definition foreign :: "'h runtime \<Rightarrow> jcall \<Rightarrow> 'h JNIEnv \<Rightarrow> jret \<times> 'h JNIEnv" where
  "foreign rt c env =
     (case rt c (heap env) (pending env) of
        (r, h, p) \<Rightarrow> (r, \<lparr>heap = h, pending = p, trace = trace env @ [c]\<rparr>))"

definition foreign_ref :: "'h runtime \<Rightarrow> jcall \<Rightarrow> 'h JNIEnv \<Rightarrow> jobject \<times> 'h JNIEnv" where
  "foreign_ref rt c env = (case foreign rt c env of (r, env1) \<Rightarrow> (ret_ref r, env1))"

text \<open>A primitive of family \<open>FVoid\<close> returns nothing, whatever the runtime answered.\<close>

definition foreign_val :: "'h runtime \<Rightarrow> jni_family \<Rightarrow> jcall \<Rightarrow> 'h JNIEnv \<Rightarrow> jret \<times> 'h JNIEnv" where
  "foreign_val rt fam c env =
     (case foreign rt c env of (r, env1) \<Rightarrow> ((if fam = FVoid then RVoid else r), env1))"

text \<open>
  The four exception primitives have their meaning fixed by the pending exception:
  \<^verbatim>\<open>ExceptionCheck\<close> tells whether one is pending, \<^verbatim>\<open>ExceptionOccurred\<close> returns it,
  \<^verbatim>\<open>ExceptionDescribe\<close> prints it, \<^verbatim>\<open>ExceptionClear\<close> clears it.
\<close>

definition ExceptionCheck :: "'h JNIEnv \<Rightarrow> bool \<times> 'h JNIEnv" where
  "ExceptionCheck env = (pending env \<noteq> nullptr, env\<lparr>trace := trace env @ [EExceptionCheck]\<rparr>)"

definition ExceptionOccurred :: "'h JNIEnv \<Rightarrow> jobject \<times> 'h JNIEnv" where
  "ExceptionOccurred env = (pending env, env\<lparr>trace := trace env @ [EExceptionOccurred]\<rparr>)"

definition ExceptionDescribe :: "'h JNIEnv \<Rightarrow> 'h JNIEnv" where
  "ExceptionDescribe env = env\<lparr>trace := trace env @ [EExceptionDescribe]\<rparr>"

definition ExceptionClear :: "'h JNIEnv \<Rightarrow> 'h JNIEnv" where
  "ExceptionClear env = env\<lparr>pending := nullptr, trace := trace env @ [EExceptionClear]\<rparr>"

section \<open>JNIException and JNI\_CHECK\_EXCEPTION\<close>

text \<open>
  \<^verbatim>\<open>class JNIException\<close>: the message of the \<^verbatim>\<open>std::runtime_error\<close> and the
  \<^verbatim>\<open>jthrowable\<close>. It is the only exception class of the header.
\<close>

datatype JNIException = JNIException (what: string) (getJavaException: jobject)

text \<open>
  A function that can throw returns \<open>Inl\<close> of the exception, or \<open>Inr\<close> of its result, and
  the environment as it is at that moment.

  \<^verbatim>\<open>
  if ((env)->ExceptionCheck()) {
      jthrowable exception = (env)->ExceptionOccurred();
      (env)->ExceptionDescribe();
      (env)->ExceptionClear();
      throw jni::JNIException("JNI exception occurred", exception);
  }
  \<close>
\<close>

definition JNI_CHECK_EXCEPTION :: "'h JNIEnv \<Rightarrow> (JNIException + unit) \<times> 'h JNIEnv" where
  "JNI_CHECK_EXCEPTION env =
     (case ExceptionCheck env of
        (is_pending, env1) \<Rightarrow>
          if is_pending then
            (case ExceptionOccurred env1 of
               (exception, env2) \<Rightarrow>
                 let env3 = ExceptionDescribe env2;
                     env4 = ExceptionClear env3
                 in (Inl (JNIException ''JNI exception occurred'' exception), env4))
          else (Inr (), env1))"

text \<open>
  The shape of every checked call site:
  \<^verbatim>\<open>T result = env->F(...); JNI_CHECK_EXCEPTION(env); return result;\<close>
\<close>

definition checked ::
  "('h JNIEnv \<Rightarrow> 'a \<times> 'h JNIEnv) \<Rightarrow> 'h JNIEnv \<Rightarrow> (JNIException + 'a) \<times> 'h JNIEnv" where
  "checked f env =
     (case f env of
        (result, env1) \<Rightarrow>
          (case JNI_CHECK_EXCEPTION env1 of
             (Inl e, env2) \<Rightarrow> (Inl e, env2)
           | (Inr _, env2) \<Rightarrow> (Inr result, env2)))"

section \<open>ScopedLocalRef\<close>

text \<open>
  The guard holds \<^verbatim>\<open>ref_\<close> (here \<open>guard_ref\<close>); its \<^verbatim>\<open>env_\<close> is the environment passed along. The destructor
  is \<^verbatim>\<open>if (ref_) env_->DeleteLocalRef(ref_);\<close>, and \<^verbatim>\<open>release()\<close> returns \<^verbatim>\<open>ref_\<close> and
  sets it to \<^verbatim>\<open>nullptr\<close>.
\<close>

record ScopedLocalRef =
  guard_ref :: jobject

definition ScopedLocalRef_ctor :: "jobject \<Rightarrow> ScopedLocalRef" where
  "ScopedLocalRef_ctor ref = \<lparr>guard_ref = ref\<rparr>"

definition ScopedLocalRef_dtor :: "'h runtime \<Rightarrow> ScopedLocalRef \<Rightarrow> 'h JNIEnv \<Rightarrow> 'h JNIEnv" where
  "ScopedLocalRef_dtor rt g env =
     (if guard_ref g \<noteq> nullptr then snd (foreign rt (EDeleteLocalRef (guard_ref g)) env) else env)"

definition ScopedLocalRef_get :: "ScopedLocalRef \<Rightarrow> jobject" where
  "ScopedLocalRef_get g = guard_ref g"

definition ScopedLocalRef_release :: "ScopedLocalRef \<Rightarrow> jobject \<times> ScopedLocalRef" where
  "ScopedLocalRef_release g = (let temp = guard_ref g in (temp, g\<lparr>guard_ref := nullptr\<rparr>))"

text \<open>
  A guard's life: construction on a handle, any sequence of \<^verbatim>\<open>get()\<close> and \<^verbatim>\<open>release()\<close>
  calls, destruction at the end of the scope.
\<close>

datatype guard_use = Get | Release

fun guard_uses :: "ScopedLocalRef \<Rightarrow> guard_use list \<Rightarrow> ScopedLocalRef" where
  "guard_uses g [] = g"
| "guard_uses g (Get # us) = guard_uses g us"
| "guard_uses g (Release # us) = guard_uses (snd (ScopedLocalRef_release g)) us"

definition guard_scope ::
  "'h runtime \<Rightarrow> 'h JNIEnv \<Rightarrow> jobject \<Rightarrow> guard_use list \<Rightarrow> 'h JNIEnv" where
  "guard_scope rt env ref us = ScopedLocalRef_dtor rt (guard_uses (ScopedLocalRef_ctor ref) us) env"

section \<open>String marshaling\<close>

text \<open>
  The C string that starts at the first byte of a buffer: the bytes before the first NUL.
  \<^verbatim>\<open>str.c_str()\<close> passes the bytes of \<^verbatim>\<open>str\<close> followed by a NUL, and
  \<^verbatim>\<open>std::string result(chars)\<close> copies the C string at \<^verbatim>\<open>chars\<close>.
\<close>

definition cstring :: "string \<Rightarrow> string" where
  "cstring bytes = takeWhile (\<lambda>c. c \<noteq> CHR 0x00) bytes"

definition JStringToString :: "'h runtime \<Rightarrow> 'h JNIEnv \<Rightarrow> jobject \<Rightarrow> string \<times> 'h JNIEnv" where
  "JStringToString rt env jstr =
     (if jstr = nullptr then ([], env)
      else
        (case foreign rt (EGetStringUTFChars jstr) env of
           (r, env1) \<Rightarrow>
             (case ret_chars r of
                None \<Rightarrow> ([], env1)
              | Some chars \<Rightarrow>
                  let result = cstring chars
                  in (result, snd (foreign rt (EReleaseStringUTFChars jstr chars) env1)))))"

text \<open>\<^verbatim>\<open>env->NewStringUTF(p)\<close> reads the C string at \<^verbatim>\<open>p\<close>.\<close>

definition NewStringUTF :: "'h runtime \<Rightarrow> string \<Rightarrow> 'h JNIEnv \<Rightarrow> jobject \<times> 'h JNIEnv" where
  "NewStringUTF rt bytes env = foreign_ref rt (ENewStringUTF (cstring bytes)) env"

text \<open>\<^verbatim>\<open>return env->NewStringUTF(str.c_str());\<close>\<close>

definition StringToJString :: "'h runtime \<Rightarrow> 'h JNIEnv \<Rightarrow> string \<Rightarrow> jobject \<times> 'h JNIEnv" where
  "StringToJString rt env str = NewStringUTF rt str env"

section \<open>Lookups\<close>

definition FindClass ::
  "'h runtime \<Rightarrow> 'h JNIEnv \<Rightarrow> string \<Rightarrow> (JNIException + jobject) \<times> 'h JNIEnv" where
  "FindClass rt env className = checked (foreign_ref rt (EFindClass className)) env"

definition GetMethodID ::
  "'h runtime \<Rightarrow> 'h JNIEnv \<Rightarrow> jobject \<Rightarrow> string \<Rightarrow> string \<Rightarrow> (JNIException + nat) \<times> 'h JNIEnv" where
  "GetMethodID rt env cls methodName signature =
     checked (foreign_ref rt (EGetMethodID cls methodName signature)) env"

definition GetStaticMethodID ::
  "'h runtime \<Rightarrow> 'h JNIEnv \<Rightarrow> jobject \<Rightarrow> string \<Rightarrow> string \<Rightarrow> (JNIException + nat) \<times> 'h JNIEnv" where
  "GetStaticMethodID rt env cls methodName signature =
     checked (foreign_ref rt (EGetStaticMethodID cls methodName signature)) env"

definition GetFieldID ::
  "'h runtime \<Rightarrow> 'h JNIEnv \<Rightarrow> jobject \<Rightarrow> string \<Rightarrow> string \<Rightarrow> (JNIException + nat) \<times> 'h JNIEnv" where
  "GetFieldID rt env cls fieldName signature =
     checked (foreign_ref rt (EGetFieldID cls fieldName signature)) env"

definition GetStaticFieldID ::
  "'h runtime \<Rightarrow> 'h JNIEnv \<Rightarrow> jobject \<Rightarrow> string \<Rightarrow> string \<Rightarrow> (JNIException + nat) \<times> 'h JNIEnv" where
  "GetStaticFieldID rt env cls fieldName signature =
     checked (foreign_ref rt (EGetStaticFieldID cls fieldName signature)) env"

section \<open>JNITypeTraits\<close>

text \<open>
  The type arguments of the templates. \<open>Tjclass\<close> stands for a reference type other than
  \<^verbatim>\<open>jobject\<close> and \<^verbatim>\<open>jstring\<close> (\<^verbatim>\<open>jclass\<close>, \<^verbatim>\<open>jthrowable\<close>, \<^verbatim>\<open>jobjectArray\<close>, ...: in C++ a
  pointer to a class derived from \<^verbatim>\<open>_jobject\<close>, so convertible to \<^verbatim>\<open>jobject\<close>), \<open>Tother\<close>
  for a type that is neither \<^verbatim>\<open>void\<close>, nor one of the eight primitive types, nor convertible
  to \<^verbatim>\<open>jobject\<close>.
\<close>

datatype ctype =
    Tjobject | Tjstring | Tvoid | Tjboolean | Tjbyte | Tjchar | Tjshort | Tjint | Tjlong
  | Tjfloat | Tjdouble | Tjclass | Tother

text \<open>
  \<^verbatim>\<open>template <typename T> struct JNITypeTraits;\<close> is declared and never defined: only the
  eleven explicit specializations exist, and naming a member of any other
  \<^verbatim>\<open>JNITypeTraits<T>\<close> is ill-formed. A specialization is its \<^verbatim>\<open>signature\<close> and, for each
  of its four members, the family of the primitive the member calls (\<open>None\<close> where the
  specialization has no such member: \<^verbatim>\<open>JNITypeTraits<void>\<close> has no field members).
\<close>

record specialization =
  signature_of :: string
  GetField_of :: "jni_family option"
  GetStaticField_of :: "jni_family option"
  CallMethod_of :: jni_family
  CallStaticMethod_of :: jni_family

fun JNITypeTraits :: "ctype \<Rightarrow> specialization option" where
  "JNITypeTraits Tjobject = Some \<lparr>signature_of = ''Ljava/lang/Object;'',
     GetField_of = Some FObject, GetStaticField_of = Some FObject,
     CallMethod_of = FObject, CallStaticMethod_of = FObject\<rparr>"
| "JNITypeTraits Tjstring = Some \<lparr>signature_of = ''Ljava/lang/String;'',
     GetField_of = Some FObject, GetStaticField_of = Some FObject,
     CallMethod_of = FObject, CallStaticMethod_of = FObject\<rparr>"
| "JNITypeTraits Tvoid = Some \<lparr>signature_of = ''V'',
     GetField_of = None, GetStaticField_of = None,
     CallMethod_of = FVoid, CallStaticMethod_of = FVoid\<rparr>"
| "JNITypeTraits Tjboolean = Some \<lparr>signature_of = ''Z'',
     GetField_of = Some FBoolean, GetStaticField_of = Some FBoolean,
     CallMethod_of = FBoolean, CallStaticMethod_of = FBoolean\<rparr>"
| "JNITypeTraits Tjbyte = Some \<lparr>signature_of = ''B'',
     GetField_of = Some FByte, GetStaticField_of = Some FByte,
     CallMethod_of = FByte, CallStaticMethod_of = FByte\<rparr>"
| "JNITypeTraits Tjchar = Some \<lparr>signature_of = ''C'',
     GetField_of = Some FChar, GetStaticField_of = Some FChar,
     CallMethod_of = FChar, CallStaticMethod_of = FChar\<rparr>"
| "JNITypeTraits Tjshort = Some \<lparr>signature_of = ''S'',
     GetField_of = Some FShort, GetStaticField_of = Some FShort,
     CallMethod_of = FShort, CallStaticMethod_of = FShort\<rparr>"
| "JNITypeTraits Tjint = Some \<lparr>signature_of = ''I'',
     GetField_of = Some FInt, GetStaticField_of = Some FInt,
     CallMethod_of = FInt, CallStaticMethod_of = FInt\<rparr>"
| "JNITypeTraits Tjlong = Some \<lparr>signature_of = ''J'',
     GetField_of = Some FLong, GetStaticField_of = Some FLong,
     CallMethod_of = FLong, CallStaticMethod_of = FLong\<rparr>"
| "JNITypeTraits Tjfloat = Some \<lparr>signature_of = ''F'',
     GetField_of = Some FFloat, GetStaticField_of = Some FFloat,
     CallMethod_of = FFloat, CallStaticMethod_of = FFloat\<rparr>"
| "JNITypeTraits Tjdouble = Some \<lparr>signature_of = ''D'',
     GetField_of = Some FDouble, GetStaticField_of = Some FDouble,
     CallMethod_of = FDouble, CallStaticMethod_of = FDouble\<rparr>"
| "JNITypeTraits Tjclass = None"
| "JNITypeTraits Tother = None"

text \<open>
  Every member has the shape
  \<^verbatim>\<open>T result = env->F(...); JNI_CHECK_EXCEPTION(env); return result;\<close>
  (for \<^verbatim>\<open>jstring\<close> with a \<^verbatim>\<open>static_cast<jstring>\<close> of the handle; for \<^verbatim>\<open>void\<close> without a
  result). A member is \<open>None\<close> where using it does not compile.
\<close>

type_synonym ('h, 'a) thrower = "'h JNIEnv \<Rightarrow> (JNIException + 'a) \<times> 'h JNIEnv"

definition JNITypeTraits_signature :: "ctype \<Rightarrow> string option" where
  "JNITypeTraits_signature T = map_option signature_of (JNITypeTraits T)"

definition JNITypeTraits_GetField ::
  "'h runtime \<Rightarrow> ctype \<Rightarrow> (jobject \<Rightarrow> nat \<Rightarrow> ('h, jret) thrower) option" where
  "JNITypeTraits_GetField rt T =
     (case JNITypeTraits T of
        None \<Rightarrow> None
      | Some tr \<Rightarrow>
          (case GetField_of tr of
             None \<Rightarrow> None
           | Some fam \<Rightarrow>
               Some (\<lambda>obj fid. checked (foreign_val rt fam (EGetField fam obj fid)))))"

definition JNITypeTraits_GetStaticField ::
  "'h runtime \<Rightarrow> ctype \<Rightarrow> (jobject \<Rightarrow> nat \<Rightarrow> ('h, jret) thrower) option" where
  "JNITypeTraits_GetStaticField rt T =
     (case JNITypeTraits T of
        None \<Rightarrow> None
      | Some tr \<Rightarrow>
          (case GetStaticField_of tr of
             None \<Rightarrow> None
           | Some fam \<Rightarrow>
               Some (\<lambda>cls fid. checked (foreign_val rt fam (EGetStaticField fam cls fid)))))"

definition JNITypeTraits_CallMethod ::
  "'h runtime \<Rightarrow> ctype \<Rightarrow>
     (jobject \<Rightarrow> nat \<Rightarrow> jvalue option list \<Rightarrow> ('h, jret) thrower) option" where
  "JNITypeTraits_CallMethod rt T =
     (case JNITypeTraits T of
        None \<Rightarrow> None
      | Some tr \<Rightarrow>
          Some (\<lambda>obj mid args.
            checked (foreign_val rt (CallMethod_of tr) (ECallMethodA (CallMethod_of tr) obj mid args))))"

definition JNITypeTraits_CallStaticMethod ::
  "'h runtime \<Rightarrow> ctype \<Rightarrow>
     (jobject \<Rightarrow> nat \<Rightarrow> jvalue option list \<Rightarrow> ('h, jret) thrower) option" where
  "JNITypeTraits_CallStaticMethod rt T =
     (case JNITypeTraits T of
        None \<Rightarrow> None
      | Some tr \<Rightarrow>
          Some (\<lambda>cls mid args.
            checked (foreign_val rt (CallStaticMethod_of tr)
              (ECallStaticMethodA (CallStaticMethod_of tr) cls mid args))))"

section \<open>ArgsToJValues\<close>

text \<open>
  A call argument, by its C++ type, which selects the overload of \<^verbatim>\<open>setJValue\<close>: the eight
  primitive types, \<^verbatim>\<open>std::nullptr_t\<close>, \<^verbatim>\<open>jobject\<close>, another reference type convertible to
  \<^verbatim>\<open>jobject\<close> (\<open>Ajref\<close>), \<^verbatim>\<open>std::string\<close>, and \<^verbatim>\<open>const char*\<close> (\<open>None\<close> for a null
  pointer, otherwise the bytes it points to).
\<close>

datatype arg =
    Ajboolean "8 word" | Ajbyte "8 word" | Ajchar "16 word" | Ajshort "16 word"
  | Ajint "32 word" | Ajlong "64 word" | Ajfloat "32 word" | Ajdouble "64 word"
  | Anullptr | Ajobject jobject | Ajref jobject | Astring string | Acstr "string option"

text \<open>
  \<^verbatim>\<open>jvalue values_[sizeof...(Args) > 0 ? sizeof...(Args) : 1];\<close> starts with nothing written.
  \<^verbatim>\<open>setJValue(env, index, value)\<close> writes one member of \<^verbatim>\<open>values_[index]\<close>; the state it
  works on is the environment and the array.
\<close>

fun setJValue ::
  "'h runtime \<Rightarrow> 'h JNIEnv \<times> jvalue option list \<Rightarrow> nat \<Rightarrow> arg \<Rightarrow> 'h JNIEnv \<times> jvalue option list" where
  "setJValue rt (env, vals) index (Ajboolean value) = (env, vals[index := Some (JZ value)])"
| "setJValue rt (env, vals) index (Ajbyte value) = (env, vals[index := Some (JB value)])"
| "setJValue rt (env, vals) index (Ajchar value) = (env, vals[index := Some (JC value)])"
| "setJValue rt (env, vals) index (Ajshort value) = (env, vals[index := Some (JS value)])"
| "setJValue rt (env, vals) index (Ajint value) = (env, vals[index := Some (JI value)])"
| "setJValue rt (env, vals) index (Ajlong value) = (env, vals[index := Some (JJ value)])"
| "setJValue rt (env, vals) index (Ajfloat value) = (env, vals[index := Some (JF value)])"
| "setJValue rt (env, vals) index (Ajdouble value) = (env, vals[index := Some (JD value)])"
| "setJValue rt (env, vals) index Anullptr = (env, vals[index := Some (JL nullptr)])"
| "setJValue rt (env, vals) index (Ajobject value) = (env, vals[index := Some (JL value)])"
| "setJValue rt (env, vals) index (Ajref value) = (env, vals[index := Some (JL value)])"
| "setJValue rt (env, vals) index (Astring value) =
     (case StringToJString rt env value of
        (jstr, env1) \<Rightarrow> (env1, vals[index := Some (JL jstr)]))"
| "setJValue rt (env, vals) index (Acstr value) =
     (case value of
        None \<Rightarrow> (env, vals[index := Some (JL nullptr)])
      | Some p \<Rightarrow>
          (case NewStringUTF rt p env of
             (jstr, env1) \<Rightarrow> (env1, vals[index := Some (JL jstr)])))"

fun convertArgs ::
  "'h runtime \<Rightarrow> 'h JNIEnv \<times> jvalue option list \<Rightarrow> nat \<Rightarrow> arg list \<Rightarrow> 'h JNIEnv \<times> jvalue option list" where
  "convertArgs rt st index [] = st"
| "convertArgs rt st index (value # rest) =
     convertArgs rt (setJValue rt st index value) (index + 1) rest"

text \<open>The constructor, followed by \<^verbatim>\<open>get()\<close>.\<close>

definition ArgsToJValues ::
  "'h runtime \<Rightarrow> 'h JNIEnv \<Rightarrow> arg list \<Rightarrow> jvalue option list \<times> 'h JNIEnv" where
  "ArgsToJValues rt env args =
     (case convertArgs rt
             (env, replicate (if length args > 0 then length args else 1) None) 0 args of
        (env1, vals) \<Rightarrow> (vals, env1))"

section \<open>CallMethod, CallStaticMethod, NewObject\<close>

text \<open>\<^verbatim>\<open>std::is_convertible_v<RetType, jobject>\<close>\<close>

fun is_convertible_to_jobject :: "ctype \<Rightarrow> bool" where
  "is_convertible_to_jobject Tjobject = True"
| "is_convertible_to_jobject Tjstring = True"
| "is_convertible_to_jobject Tjclass = True"
| "is_convertible_to_jobject _ = False"

text \<open>
  The branch \<^verbatim>\<open>if constexpr (sizeof...(Args) == 0)\<close> of \<^verbatim>\<open>CallMethod\<close>: a chain of
  \<^verbatim>\<open>if constexpr (std::is_same_v<RetType, ...>)\<close>, each with
  \<^verbatim>\<open>result = env->Call<Type>Method(obj, mid); JNI_CHECK_EXCEPTION(env); return result;\<close>,
  and a last branch whose \<^verbatim>\<open>static_assert\<close> fails. The \<^verbatim>\<open>static_cast<RetType>\<close> of the
  object branch keeps the handle.
\<close>

definition CallMethod_noargs ::
  "'h runtime \<Rightarrow> ctype \<Rightarrow> (jobject \<Rightarrow> nat \<Rightarrow> ('h, jret) thrower) option" where
  "CallMethod_noargs rt RetType =
     (if RetType = Tvoid then
        Some (\<lambda>obj mid. checked (foreign_val rt FVoid (ECallMethod FVoid obj mid)))
      else if RetType = Tjboolean then
        Some (\<lambda>obj mid. checked (foreign_val rt FBoolean (ECallMethod FBoolean obj mid)))
      else if RetType = Tjbyte then
        Some (\<lambda>obj mid. checked (foreign_val rt FByte (ECallMethod FByte obj mid)))
      else if RetType = Tjchar then
        Some (\<lambda>obj mid. checked (foreign_val rt FChar (ECallMethod FChar obj mid)))
      else if RetType = Tjshort then
        Some (\<lambda>obj mid. checked (foreign_val rt FShort (ECallMethod FShort obj mid)))
      else if RetType = Tjint then
        Some (\<lambda>obj mid. checked (foreign_val rt FInt (ECallMethod FInt obj mid)))
      else if RetType = Tjlong then
        Some (\<lambda>obj mid. checked (foreign_val rt FLong (ECallMethod FLong obj mid)))
      else if RetType = Tjfloat then
        Some (\<lambda>obj mid. checked (foreign_val rt FFloat (ECallMethod FFloat obj mid)))
      else if RetType = Tjdouble then
        Some (\<lambda>obj mid. checked (foreign_val rt FDouble (ECallMethod FDouble obj mid)))
      else if RetType = Tjstring \<or> is_convertible_to_jobject RetType then
        Some (\<lambda>obj mid. checked (foreign_val rt FObject (ECallMethod FObject obj mid)))
      else None)"

text \<open>
  The other branch:
  \<^verbatim>\<open>ArgsToJValues<Args...> jvalues(env, args...);
  return JNITypeTraits<RetType>::CallMethod(env, obj, mid, jvalues.get());\<close>
\<close>

definition CallMethod_args ::
  "'h runtime \<Rightarrow> ctype \<Rightarrow> arg list \<Rightarrow> (jobject \<Rightarrow> nat \<Rightarrow> ('h, jret) thrower) option" where
  "CallMethod_args rt RetType args =
     (case JNITypeTraits_CallMethod rt RetType of
        None \<Rightarrow> None
      | Some member \<Rightarrow>
          Some (\<lambda>obj mid env.
            (case ArgsToJValues rt env args of
               (jvalues, env1) \<Rightarrow> member obj mid jvalues env1)))"

text \<open>
  What surrounds the two branches: the class of the object, under a guard, and the method
  identifier. The guard's destructor runs when the function returns and when it throws.
\<close>

definition CallMethod_body ::
  "'h runtime \<Rightarrow> 'h JNIEnv \<Rightarrow> jobject \<Rightarrow> string \<Rightarrow> string \<Rightarrow>
     (jobject \<Rightarrow> nat \<Rightarrow> ('h, jret) thrower) \<Rightarrow> (JNIException + jret) \<times> 'h JNIEnv" where
  "CallMethod_body rt env obj methodName signature call =
     (case foreign_ref rt (EGetObjectClass obj) env of
        (cls, env1) \<Rightarrow>
          let clsRef = ScopedLocalRef_ctor cls in
          (case GetMethodID rt env1 cls methodName signature of
             (Inl e, env2) \<Rightarrow> (Inl e, ScopedLocalRef_dtor rt clsRef env2)
           | (Inr mid, env2) \<Rightarrow>
               (case call obj mid env2 of
                  (r, env3) \<Rightarrow> (r, ScopedLocalRef_dtor rt clsRef env3))))"

text \<open>
  \<^verbatim>\<open>CallMethod<RetType>(env, obj, methodName, signature, args...)\<close>; \<open>None\<close> when the
  instantiation does not compile.
\<close>

definition CallMethod ::
  "'h runtime \<Rightarrow> ctype \<Rightarrow> 'h JNIEnv \<Rightarrow> jobject \<Rightarrow> string \<Rightarrow> string \<Rightarrow> arg list \<Rightarrow>
     ((JNIException + jret) \<times> 'h JNIEnv) option" where
  "CallMethod rt RetType env obj methodName signature args =
     map_option (CallMethod_body rt env obj methodName signature)
       (if args = [] then CallMethod_noargs rt RetType else CallMethod_args rt RetType args)"

text \<open>The same for \<^verbatim>\<open>CallStaticMethod\<close>, which finds the class by name.\<close>

definition CallStaticMethod_noargs ::
  "'h runtime \<Rightarrow> ctype \<Rightarrow> (jobject \<Rightarrow> nat \<Rightarrow> ('h, jret) thrower) option" where
  "CallStaticMethod_noargs rt RetType =
     (if RetType = Tvoid then
        Some (\<lambda>cls mid. checked (foreign_val rt FVoid (ECallStaticMethod FVoid cls mid)))
      else if RetType = Tjboolean then
        Some (\<lambda>cls mid. checked (foreign_val rt FBoolean (ECallStaticMethod FBoolean cls mid)))
      else if RetType = Tjbyte then
        Some (\<lambda>cls mid. checked (foreign_val rt FByte (ECallStaticMethod FByte cls mid)))
      else if RetType = Tjchar then
        Some (\<lambda>cls mid. checked (foreign_val rt FChar (ECallStaticMethod FChar cls mid)))
      else if RetType = Tjshort then
        Some (\<lambda>cls mid. checked (foreign_val rt FShort (ECallStaticMethod FShort cls mid)))
      else if RetType = Tjint then
        Some (\<lambda>cls mid. checked (foreign_val rt FInt (ECallStaticMethod FInt cls mid)))
      else if RetType = Tjlong then
        Some (\<lambda>cls mid. checked (foreign_val rt FLong (ECallStaticMethod FLong cls mid)))
      else if RetType = Tjfloat then
        Some (\<lambda>cls mid. checked (foreign_val rt FFloat (ECallStaticMethod FFloat cls mid)))
      else if RetType = Tjdouble then
        Some (\<lambda>cls mid. checked (foreign_val rt FDouble (ECallStaticMethod FDouble cls mid)))
      else if RetType = Tjstring \<or> is_convertible_to_jobject RetType then
        Some (\<lambda>cls mid. checked (foreign_val rt FObject (ECallStaticMethod FObject cls mid)))
      else None)"

definition CallStaticMethod_args ::
  "'h runtime \<Rightarrow> ctype \<Rightarrow> arg list \<Rightarrow> (jobject \<Rightarrow> nat \<Rightarrow> ('h, jret) thrower) option" where
  "CallStaticMethod_args rt RetType args =
     (case JNITypeTraits_CallStaticMethod rt RetType of
        None \<Rightarrow> None
      | Some member \<Rightarrow>
          Some (\<lambda>cls mid env.
            (case ArgsToJValues rt env args of
               (jvalues, env1) \<Rightarrow> member cls mid jvalues env1)))"

definition CallStaticMethod_body ::
  "'h runtime \<Rightarrow> 'h JNIEnv \<Rightarrow> string \<Rightarrow> string \<Rightarrow> string \<Rightarrow>
     (jobject \<Rightarrow> nat \<Rightarrow> ('h, jret) thrower) \<Rightarrow> (JNIException + jret) \<times> 'h JNIEnv" where
  "CallStaticMethod_body rt env className methodName signature call =
     (case FindClass rt env className of
        (Inl e, env1) \<Rightarrow> (Inl e, env1)
      | (Inr cls, env1) \<Rightarrow>
          let clsRef = ScopedLocalRef_ctor cls in
          (case GetStaticMethodID rt env1 cls methodName signature of
             (Inl e, env2) \<Rightarrow> (Inl e, ScopedLocalRef_dtor rt clsRef env2)
           | (Inr mid, env2) \<Rightarrow>
               (case call cls mid env2 of
                  (r, env3) \<Rightarrow> (r, ScopedLocalRef_dtor rt clsRef env3))))"

definition CallStaticMethod ::
  "'h runtime \<Rightarrow> ctype \<Rightarrow> 'h JNIEnv \<Rightarrow> string \<Rightarrow> string \<Rightarrow> string \<Rightarrow> arg list \<Rightarrow>
     ((JNIException + jret) \<times> 'h JNIEnv) option" where
  "CallStaticMethod rt RetType env className methodName signature args =
     map_option (CallStaticMethod_body rt env className methodName signature)
       (if args = [] then CallStaticMethod_noargs rt RetType
        else CallStaticMethod_args rt RetType args)"

text \<open>\<^verbatim>\<open>NewObject\<close> is no template over a result type: it always packs and calls
  \<^verbatim>\<open>NewObjectA\<close>.\<close>

definition NewObject ::
  "'h runtime \<Rightarrow> 'h JNIEnv \<Rightarrow> string \<Rightarrow> string \<Rightarrow> arg list \<Rightarrow> (JNIException + jobject) \<times> 'h JNIEnv" where
  "NewObject rt env className constructorSignature args =
     (case FindClass rt env className of
        (Inl e, env1) \<Rightarrow> (Inl e, env1)
      | (Inr cls, env1) \<Rightarrow>
          let clsRef = ScopedLocalRef_ctor cls in
          (case GetMethodID rt env1 cls ''<init>'' constructorSignature of
             (Inl e, env2) \<Rightarrow> (Inl e, ScopedLocalRef_dtor rt clsRef env2)
           | (Inr constructor, env2) \<Rightarrow>
               (case ArgsToJValues rt env2 args of
                  (jvalues, env3) \<Rightarrow>
                    (case checked (foreign_ref rt (ENewObjectA cls constructor jvalues)) env3 of
                       (r, env4) \<Rightarrow> (r, ScopedLocalRef_dtor rt clsRef env4)))))"

section \<open>GetField, GetStaticField\<close>

text \<open>
  \<^verbatim>\<open>static_cast<T>(e)\<close> for \<^verbatim>\<open>e\<close> of type \<^verbatim>\<open>jobject\<close>: the same handle when \<^verbatim>\<open>T\<close> is a
  reference type, nothing when \<^verbatim>\<open>T\<close> is \<^verbatim>\<open>void\<close>, and ill-formed otherwise (a pointer
  does not convert to an arithmetic type by \<^verbatim>\<open>static_cast\<close>).
\<close>

fun static_cast_jobject :: "ctype \<Rightarrow> (jret \<Rightarrow> jret) option" where
  "static_cast_jobject Tjobject = Some (\<lambda>r. r)"
| "static_cast_jobject Tjstring = Some (\<lambda>r. r)"
| "static_cast_jobject Tjclass = Some (\<lambda>r. r)"
| "static_cast_jobject Tvoid = Some (\<lambda>r. RVoid)"
| "static_cast_jobject _ = None"

definition cast_result ::
  "(jret \<Rightarrow> jret) \<Rightarrow> (JNIException + jret) \<times> 'h JNIEnv \<Rightarrow> (JNIException + jret) \<times> 'h JNIEnv" where
  "cast_result cast res = (case res of (Inl e, env) \<Rightarrow> (Inl e, env) | (Inr r, env) \<Rightarrow> (Inr (cast r), env))"

text \<open>
  \<^verbatim>\<open>
  const char* fieldSig = signature ? signature : JNITypeTraits<T>::signature;
  jfieldID fid = GetFieldID(env, cls, fieldName, fieldSig);
  if (signature) {
      return static_cast<T>(JNITypeTraits<jobject>::GetField(env, obj, fid));
  } else {
      return JNITypeTraits<T>::GetField(env, obj, fid);
  }
  \<close>
  The \<^verbatim>\<open>if\<close> is an ordinary one, so an instantiation compiles both branches and the
  conditional expression: it needs \<^verbatim>\<open>JNITypeTraits<T>::signature\<close>,
  \<^verbatim>\<open>JNITypeTraits<T>::GetField\<close> and the \<^verbatim>\<open>static_cast<T>\<close>, whatever \<^verbatim>\<open>signature\<close> is at
  run time. \<open>signature\<close> is \<open>None\<close> for the default \<^verbatim>\<open>nullptr\<close>.
\<close>

definition GetField ::
  "'h runtime \<Rightarrow> ctype \<Rightarrow> 'h JNIEnv \<Rightarrow> jobject \<Rightarrow> string \<Rightarrow> string option \<Rightarrow>
     ((JNIException + jret) \<times> 'h JNIEnv) option" where
  "GetField rt T env obj fieldName signature =
     (case (JNITypeTraits_signature T, JNITypeTraits_GetField rt T,
            JNITypeTraits_GetField rt Tjobject, static_cast_jobject T) of
        (Some T_signature, Some T_GetField, Some jobject_GetField, Some cast) \<Rightarrow>
          Some
            (case foreign_ref rt (EGetObjectClass obj) env of
               (cls, env1) \<Rightarrow>
                 let clsRef = ScopedLocalRef_ctor cls;
                     fieldSig = (case signature of Some s \<Rightarrow> s | None \<Rightarrow> T_signature)
                 in
                 (case GetFieldID rt env1 cls fieldName fieldSig of
                    (Inl e, env2) \<Rightarrow> (Inl e, ScopedLocalRef_dtor rt clsRef env2)
                  | (Inr fid, env2) \<Rightarrow>
                      (case (if signature \<noteq> None
                             then cast_result cast (jobject_GetField obj fid env2)
                             else T_GetField obj fid env2) of
                         (r, env3) \<Rightarrow> (r, ScopedLocalRef_dtor rt clsRef env3))))
      | _ \<Rightarrow> None)"

definition GetStaticField ::
  "'h runtime \<Rightarrow> ctype \<Rightarrow> 'h JNIEnv \<Rightarrow> string \<Rightarrow> string \<Rightarrow> string option \<Rightarrow>
     ((JNIException + jret) \<times> 'h JNIEnv) option" where
  "GetStaticField rt T env className fieldName signature =
     (case (JNITypeTraits_signature T, JNITypeTraits_GetStaticField rt T,
            JNITypeTraits_GetStaticField rt Tjobject, static_cast_jobject T) of
        (Some T_signature, Some T_GetStaticField, Some jobject_GetStaticField, Some cast) \<Rightarrow>
          Some
            (case FindClass rt env className of
               (Inl e, env1) \<Rightarrow> (Inl e, env1)
             | (Inr cls, env1) \<Rightarrow>
                 let clsRef = ScopedLocalRef_ctor cls;
                     fieldSig = (case signature of Some s \<Rightarrow> s | None \<Rightarrow> T_signature)
                 in
                 (case GetStaticFieldID rt env1 cls fieldName fieldSig of
                    (Inl e, env2) \<Rightarrow> (Inl e, ScopedLocalRef_dtor rt clsRef env2)
                  | (Inr fid, env2) \<Rightarrow>
                      (case (if signature \<noteq> None
                             then cast_result cast (jobject_GetStaticField cls fid env2)
                             else T_GetStaticField cls fid env2) of
                         (r, env3) \<Rightarrow> (r, ScopedLocalRef_dtor rt clsRef env3))))
      | _ \<Rightarrow> None)"

section \<open>Specification-level notions\<close>

subsection \<open>Packing policy\<close>

text \<open>
  The value an argument is converted to, by the packing policy: a primitive value is copied
  into the member of its type, a null reference and a null C string become the null
  reference, a reference is stored as it is, and a string becomes the handle that the
  runtime's string constructor returns for it. The conversion of a list runs left to right.
\<close>

fun arg_value :: "'h runtime \<Rightarrow> 'h JNIEnv \<Rightarrow> arg \<Rightarrow> jvalue \<times> 'h JNIEnv" where
  "arg_value rt env (Ajboolean v) = (JZ v, env)"
| "arg_value rt env (Ajbyte v) = (JB v, env)"
| "arg_value rt env (Ajchar v) = (JC v, env)"
| "arg_value rt env (Ajshort v) = (JS v, env)"
| "arg_value rt env (Ajint v) = (JI v, env)"
| "arg_value rt env (Ajlong v) = (JJ v, env)"
| "arg_value rt env (Ajfloat v) = (JF v, env)"
| "arg_value rt env (Ajdouble v) = (JD v, env)"
| "arg_value rt env Anullptr = (JL nullptr, env)"
| "arg_value rt env (Ajobject h) = (JL h, env)"
| "arg_value rt env (Ajref h) = (JL h, env)"
| "arg_value rt env (Astring s) =
     (case foreign rt (ENewStringUTF (cstring s)) env of (r, env1) \<Rightarrow> (JL (ret_ref r), env1))"
| "arg_value rt env (Acstr None) = (JL nullptr, env)"
| "arg_value rt env (Acstr (Some p)) =
     (case foreign rt (ENewStringUTF (cstring p)) env of (r, env1) \<Rightarrow> (JL (ret_ref r), env1))"

fun arg_values :: "'h runtime \<Rightarrow> 'h JNIEnv \<Rightarrow> arg list \<Rightarrow> jvalue list \<times> 'h JNIEnv" where
  "arg_values rt env [] = ([], env)"
| "arg_values rt env (a # as) =
     (case arg_value rt env a of
        (v, env1) \<Rightarrow> (case arg_values rt env1 as of (vs, env2) \<Rightarrow> (v # vs, env2)))"

text \<open>The foreign calls that packing one argument may make.\<close>

fun arg_calls :: "arg \<Rightarrow> jcall list" where
  "arg_calls (Astring s) = [ENewStringUTF (cstring s)]"
| "arg_calls (Acstr (Some p)) = [ENewStringUTF (cstring p)]"
| "arg_calls _ = []"

subsection \<open>Dispatch through the table, and what a caller observes\<close>

text \<open>
  The call made through the entry of the dispatch table whatever the number of arguments:
  the array is built and the array-based member of \<^verbatim>\<open>JNITypeTraits<RetType>\<close> is called.
\<close>

definition CallMethod_dispatched ::
  "'h runtime \<Rightarrow> ctype \<Rightarrow> 'h JNIEnv \<Rightarrow> jobject \<Rightarrow> string \<Rightarrow> string \<Rightarrow> arg list \<Rightarrow>
     ((JNIException + jret) \<times> 'h JNIEnv) option" where
  "CallMethod_dispatched rt RetType env obj methodName signature args =
     map_option (CallMethod_body rt env obj methodName signature) (CallMethod_args rt RetType args)"

definition CallStaticMethod_dispatched ::
  "'h runtime \<Rightarrow> ctype \<Rightarrow> 'h JNIEnv \<Rightarrow> string \<Rightarrow> string \<Rightarrow> string \<Rightarrow> arg list \<Rightarrow>
     ((JNIException + jret) \<times> 'h JNIEnv) option" where
  "CallStaticMethod_dispatched rt RetType env className methodName signature args =
     map_option (CallStaticMethod_body rt env className methodName signature)
       (CallStaticMethod_args rt RetType args)"

text \<open>
  What the caller and the runtime see of an outcome: the result or the exception, the heap
  and the pending exception. The record of the calls made is left out.
\<close>

definition observable :: "('e + 'a) \<times> 'h JNIEnv \<Rightarrow> ('e + 'a) \<times> 'h \<times> jobject" where
  "observable res = (fst res, heap (snd res), pending (snd res))"

text \<open>The primitives that take an argument array.\<close>

fun takes_array :: "jcall \<Rightarrow> bool" where
  "takes_array (ECallMethodA fam obj mid args) = True"
| "takes_array (ECallStaticMethodA fam cls mid args) = True"
| "takes_array (ENewObjectA cls mid args) = True"
| "takes_array _ = False"

text \<open>
  The calls that make up the check after a foreign call that left \<open>p\<close> pending, the calls
  of the destructor of the guard of the class \<open>cls\<close>, and the outcome of a checked call of
  family \<open>fam\<close> that the runtime answered with \<open>ans\<close>: the exception of the bridge when the
  answer leaves an exception pending, the value returned otherwise.
\<close>

definition bridge_calls :: "jobject \<Rightarrow> jcall list" where
  "bridge_calls p =
     (if p \<noteq> nullptr
      then [EExceptionCheck, EExceptionOccurred, EExceptionDescribe, EExceptionClear]
      else [EExceptionCheck])"

definition guard_calls :: "jobject \<Rightarrow> jcall list" where
  "guard_calls cls = (if cls \<noteq> nullptr then [EDeleteLocalRef cls] else [])"

definition call_outcome :: "jni_family \<Rightarrow> jret \<times> 'h \<times> jobject \<Rightarrow> JNIException + jret" where
  "call_outcome fam ans =
     (if snd (snd ans) \<noteq> nullptr
      then Inl (JNIException ''JNI exception occurred'' (snd (snd ans)))
      else Inr (if fam = FVoid then RVoid else fst ans))"

subsection \<open>Failures\<close>

text \<open>
  The exception that \<^verbatim>\<open>JNI_CHECK_EXCEPTION\<close> throws for the pending exception \<open>t\<close>: a foreign
  fault that carries \<open>t\<close>. A failure is a fault when it is this exception for a handle that
  is not null.
\<close>

definition ForeignFault :: "jobject \<Rightarrow> JNIException" where
  "ForeignFault t = JNIException ''JNI exception occurred'' t"

definition is_fault :: "JNIException \<Rightarrow> bool" where
  "is_fault e \<longleftrightarrow> e = ForeignFault (getJavaException e) \<and> getJavaException e \<noteq> nullptr"

definition fails_with_fault_only :: "(JNIException + 'a) \<times> 'h JNIEnv \<Rightarrow> bool" where
  "fails_with_fault_only res = (case fst res of Inl e \<Rightarrow> is_fault e | Inr r \<Rightarrow> True)"

subsection \<open>The round trip of a string\<close>


subsection \<open>A small runtime for concrete runs\<close>

text \<open>
  Its heap is the list of the strings created so far; the string at position \<open>k\<close> has the
  handle \<open>100 + k\<close>, and there is room for two strings. It knows the class
  \<^verbatim>\<open>java/lang/String\<close> (handle 10), the methods \<^verbatim>\<open>length\<close> and \<^verbatim>\<open><init>\<close> (identifier 20)
  and \<^verbatim>\<open>fail\<close> (identifier 21, which throws the object 93), and the field \<^verbatim>\<open>value\<close>
  (identifier 30). A lookup of anything else raises: 90 for a class, 91 for a method, 92 for
  a field. A string that does not fit raises 94.
\<close>

definition demo_rt :: "(string list) runtime" where
  "demo_rt c h p =
     (case c of
        EFindClass name \<Rightarrow>
          if name = ''java/lang/String'' then (RVal (JL 10), h, p) else (RVal (JL nullptr), h, 90)
      | EGetObjectClass obj \<Rightarrow> (RVal (JL 10), h, p)
      | EGetMethodID cls name sig \<Rightarrow>
          if name = ''length'' \<or> name = ''<init>'' then (RVal (JL 20), h, p)
          else if name = ''fail'' then (RVal (JL 21), h, p)
          else (RVal (JL nullptr), h, 91)
      | EGetStaticMethodID cls name sig \<Rightarrow>
          if name = ''length'' then (RVal (JL 20), h, p)
          else if name = ''fail'' then (RVal (JL 21), h, p)
          else (RVal (JL nullptr), h, 91)
      | EGetFieldID cls name sig \<Rightarrow>
          if name = ''value'' then (RVal (JL 30), h, p) else (RVal (JL nullptr), h, 92)
      | EGetStaticFieldID cls name sig \<Rightarrow>
          if name = ''value'' then (RVal (JL 30), h, p) else (RVal (JL nullptr), h, 92)
      | EGetField fam obj fid \<Rightarrow> (RVal (JL 40), h, p)
      | EGetStaticField fam cls fid \<Rightarrow> (RVal (JL 40), h, p)
      | ECallMethod fam obj mid \<Rightarrow>
          if mid = 20 then (RVal (JI 3), h, p) else (RVal (JI 0), h, 93)
      | ECallStaticMethod fam cls mid \<Rightarrow>
          if mid = 20 then (RVal (JI 3), h, p) else (RVal (JI 0), h, 93)
      | ECallMethodA fam obj mid args \<Rightarrow>
          if mid = 20 then (RVal (JI 3), h, p) else (RVal (JI 0), h, 93)
      | ECallStaticMethodA fam cls mid args \<Rightarrow>
          if mid = 20 then (RVal (JI 3), h, p) else (RVal (JI 0), h, 93)
      | ENewObjectA cls mid args \<Rightarrow> (RVal (JL 50), h, p)
      | ENewStringUTF s \<Rightarrow>
          if length h < 2 then (RVal (JL (100 + length h)), h @ [s], p)
          else (RVal (JL nullptr), h, 94)
      | EGetStringUTFChars jstr \<Rightarrow>
          if 100 \<le> jstr \<and> jstr < 100 + length h then (RChars (Some (h ! (jstr - 100))), h, p)
          else (RChars None, h, p)
      | _ \<Rightarrow> (RVoid, h, p))"

definition demo_env :: "(string list) JNIEnv" where
  "demo_env = \<lparr>heap = [], pending = nullptr, trace = []\<rparr>"

text \<open>The same with no room left for a string.\<close>

definition full_env :: "(string list) JNIEnv" where
  "full_env = \<lparr>heap = [''x'', ''y''], pending = nullptr, trace = []\<rparr>"

text \<open>A runtime that knows the classes of \<open>demo_rt\<close> and none of their members.\<close>

definition no_members_rt :: "(string list) runtime" where
  "no_members_rt c h p =
     (case c of
        EGetMethodID cls name sig \<Rightarrow> (RVal (JL nullptr), h, 91)
      | EGetStaticMethodID cls name sig \<Rightarrow> (RVal (JL nullptr), h, 91)
      | EGetFieldID cls name sig \<Rightarrow> (RVal (JL nullptr), h, 92)
      | EGetStaticFieldID cls name sig \<Rightarrow> (RVal (JL nullptr), h, 92)
      | _ \<Rightarrow> demo_rt c h p)"



subsection \<open>The contract of the string primitives\<close>


section \<open>Basic facts\<close>

lemma JNI_CHECK_EXCEPTION_eq:
  "JNI_CHECK_EXCEPTION env =
     (if pending env \<noteq> nullptr
      then (Inl (JNIException ''JNI exception occurred'' (pending env)),
            env\<lparr>pending := nullptr,
                trace := trace env @ [EExceptionCheck, EExceptionOccurred, EExceptionDescribe, EExceptionClear]\<rparr>)
      else (Inr (), env\<lparr>trace := trace env @ [EExceptionCheck]\<rparr>))"
  by (simp add: JNI_CHECK_EXCEPTION_def ExceptionCheck_def ExceptionOccurred_def
      ExceptionDescribe_def ExceptionClear_def)

lemma checked_eq:
  "checked f env =
     (if pending (snd (f env)) \<noteq> nullptr
      then (Inl (JNIException ''JNI exception occurred'' (pending (snd (f env)))),
            (snd (f env))\<lparr>pending := nullptr,
                trace := trace (snd (f env)) @ [EExceptionCheck, EExceptionOccurred, EExceptionDescribe, EExceptionClear]\<rparr>)
      else (Inr (fst (f env)), (snd (f env))\<lparr>trace := trace (snd (f env)) @ [EExceptionCheck]\<rparr>))"
  by (simp add: checked_def JNI_CHECK_EXCEPTION_eq split: prod.splits)

lemma foreign_sel:
  "heap (snd (foreign rt c env)) = fst (snd (rt c (heap env) (pending env)))"
  "pending (snd (foreign rt c env)) = snd (snd (rt c (heap env) (pending env)))"
  "trace (snd (foreign rt c env)) = trace env @ [c]"
  "fst (foreign rt c env) = fst (rt c (heap env) (pending env))"
  by (simp_all add: foreign_def split: prod.splits)

lemma demo_simps:
  "demo_rt (EFindClass name) h p = (if name = ''java/lang/String'' then (RVal (JL 10), h, p) else (RVal (JL nullptr), h, 90))"
  "demo_rt (EGetObjectClass obj) h p = (RVal (JL 10), h, p)"
  "demo_rt (EGetMethodID cls name sig) h p =
     (if name = ''length'' \<or> name = ''<init>'' then (RVal (JL 20), h, p)
      else if name = ''fail'' then (RVal (JL 21), h, p) else (RVal (JL nullptr), h, 91))"
  "demo_rt (EGetStaticMethodID cls name sig) h p =
     (if name = ''length'' then (RVal (JL 20), h, p)
      else if name = ''fail'' then (RVal (JL 21), h, p) else (RVal (JL nullptr), h, 91))"
  "demo_rt (EGetFieldID cls name sig) h p = (if name = ''value'' then (RVal (JL 30), h, p) else (RVal (JL nullptr), h, 92))"
  "demo_rt (EGetStaticFieldID cls name sig) h p = (if name = ''value'' then (RVal (JL 30), h, p) else (RVal (JL nullptr), h, 92))"
  "demo_rt (EGetField fam obj fid) h p = (RVal (JL 40), h, p)"
  "demo_rt (EGetStaticField fam obj fid) h p = (RVal (JL 40), h, p)"
  "demo_rt (ECallMethod fam obj mid) h p = (if mid = 20 then (RVal (JI 3), h, p) else (RVal (JI 0), h, 93))"
  "demo_rt (ECallStaticMethod fam obj mid) h p = (if mid = 20 then (RVal (JI 3), h, p) else (RVal (JI 0), h, 93))"
  "demo_rt (ECallMethodA fam obj mid args) h p = (if mid = 20 then (RVal (JI 3), h, p) else (RVal (JI 0), h, 93))"
  "demo_rt (ECallStaticMethodA fam obj mid args) h p = (if mid = 20 then (RVal (JI 3), h, p) else (RVal (JI 0), h, 93))"
  "demo_rt (ENewObjectA cls mid args) h p = (RVal (JL 50), h, p)"
  "demo_rt (ENewStringUTF s) h p =
     (if length h < 2 then (RVal (JL (100 + length h)), h @ [s], p) else (RVal (JL nullptr), h, 94))"
  "demo_rt (EGetStringUTFChars jstr) h p =
     (if 100 \<le> jstr \<and> jstr < 100 + length h then (RChars (Some (h ! (jstr - 100))), h, p) else (RChars None, h, p))"
  "demo_rt (EReleaseStringUTFChars jstr chars) h p = (RVoid, h, p)"
  "demo_rt (EDeleteLocalRef obj) h p = (RVoid, h, p)"
  by (simp_all add: demo_rt_def)

section \<open>The exception bridge\<close>

text \<open>
  What the check does where it is made. With a foreign exception pending,
  \<^verbatim>\<open>JNI_CHECK_EXCEPTION\<close> asks the runtime for the exception object, has it described,
  clears the pending exception and throws a \<open>JNIException\<close> that carries the object; with
  none pending it only asks, and changes neither the heap nor the pending state. So a call
  site \<open>checked f\<close>, whose foreign call \<open>f\<close> leaves an exception pending, fails with that
  exception's handle and leaves none pending; a later checked call \<open>c\<close> on the same
  environment that raises nothing itself passes its own check and returns its result.
\<close>

lemma exception_bridge:
  "(pending env \<noteq> nullptr \<longrightarrow>
      JNI_CHECK_EXCEPTION env =
        (Inl (JNIException ''JNI exception occurred'' (pending env)),
         env\<lparr>pending := nullptr,
             trace := trace env @ [EExceptionCheck, EExceptionOccurred, EExceptionDescribe, EExceptionClear]\<rparr>))
   \<and> (pending env = nullptr \<longrightarrow>
      JNI_CHECK_EXCEPTION env = (Inr (), env\<lparr>trace := trace env @ [EExceptionCheck]\<rparr>))
   \<and> (pending (snd (f env)) \<noteq> nullptr \<longrightarrow>
         fst (checked f env) = Inl (JNIException ''JNI exception occurred'' (pending (snd (f env))))
       \<and> pending (snd (checked f env)) = nullptr
       \<and> heap (snd (checked f env)) = heap (snd (f env))
       \<and> (rt c (heap (snd (f env))) nullptr = (r, h, nullptr) \<longrightarrow>
             fst (checked (foreign rt c) (snd (checked f env))) = Inr r))
   \<and> (pending (snd (f env)) = nullptr \<longrightarrow>
         fst (checked f env) = Inr (fst (f env))
       \<and> heap (snd (checked f env)) = heap (snd (f env))
       \<and> pending (snd (checked f env)) = nullptr)"
  by (simp add: JNI_CHECK_EXCEPTION_eq checked_eq foreign_sel)

lemma exception_bridge_example:
  "pending (full_env\<lparr>pending := 94\<rparr>) \<noteq> nullptr
   \<and> JNI_CHECK_EXCEPTION (full_env\<lparr>pending := 94\<rparr>) =
       (Inl (JNIException ''JNI exception occurred'' 94),
        full_env\<lparr>trace := [EExceptionCheck, EExceptionOccurred, EExceptionDescribe, EExceptionClear]\<rparr>)
   \<and> pending demo_env = nullptr
   \<and> JNI_CHECK_EXCEPTION demo_env = (Inr (), demo_env\<lparr>trace := [EExceptionCheck]\<rparr>)
   \<and> pending (snd (foreign demo_rt (EFindClass ''no/such/Class'') demo_env)) \<noteq> nullptr
   \<and> fst (checked (foreign demo_rt (EFindClass ''no/such/Class'')) demo_env) =
       Inl (JNIException ''JNI exception occurred'' 90)
   \<and> demo_rt (EFindClass ''java/lang/String'') (heap (snd (foreign demo_rt (EFindClass ''no/such/Class'') demo_env))) nullptr
        = (RVal (JL 10), [], nullptr)
   \<and> fst (checked (foreign demo_rt (EFindClass ''java/lang/String''))
         (snd (checked (foreign demo_rt (EFindClass ''no/such/Class'')) demo_env))) = Inr (RVal (JL 10))
   \<and> pending (snd (foreign demo_rt (EFindClass ''java/lang/String'') demo_env)) = nullptr
   \<and> fst (checked (foreign demo_rt (EFindClass ''java/lang/String'')) demo_env) = Inr (RVal (JL 10))
   \<and> map_option fst (CallMethod demo_rt Tjint demo_env 1 ''fail'' ''()I'' []) =
       Some (Inl (JNIException ''JNI exception occurred'' 93))
   \<and> map_option (\<lambda>res. map_option fst (CallMethod demo_rt Tjint (snd res) 1 ''length'' ''()I'' []))
        (CallMethod demo_rt Tjint demo_env 1 ''fail'' ''()I'' []) =
       Some (Some (Inr (RVal (JI 3))))"
proof -
  have calls:
    "map_option fst (CallMethod demo_rt Tjint demo_env 1 ''fail'' ''()I'' []) =
       Some (Inl (JNIException ''JNI exception occurred'' 93))"
    "map_option (\<lambda>res. map_option fst (CallMethod demo_rt Tjint (snd res) 1 ''length'' ''()I'' []))
        (CallMethod demo_rt Tjint demo_env 1 ''fail'' ''()I'' []) =
       Some (Some (Inr (RVal (JI 3))))"
    by (simp_all add: CallMethod_def CallMethod_noargs_def CallMethod_body_def GetMethodID_def
        checked_eq foreign_ref_def foreign_val_def foreign_def demo_simps demo_env_def
        ScopedLocalRef_dtor_def ScopedLocalRef_ctor_def)
  from exception_bridge [where env = "full_env\<lparr>pending := 94\<rparr>" and rt = demo_rt
      and f = "foreign demo_rt (EFindClass ''no/such/Class'')"]
    exception_bridge [where env = demo_env and rt = demo_rt
      and f = "foreign demo_rt (EFindClass ''no/such/Class'')"
      and c = "EFindClass ''java/lang/String''" and r = "RVal (JL 10)" and h = "[]"]
    exception_bridge [where env = demo_env and rt = demo_rt
      and f = "foreign demo_rt (EFindClass ''java/lang/String'')"]
    calls
  show ?thesis
    by (simp add: demo_env_def full_env_def foreign_sel demo_simps)
qed


section \<open>The scoped guard\<close>

lemma guard_uses_ref:
  "guard_ref (guard_uses g us) = (if Release \<in> set us then nullptr else guard_ref g)"
proof (induction us arbitrary: g)
  case Nil
  then show ?case by simp
next
  case (Cons u us)
  then show ?case
    by (cases u) (simp_all add: ScopedLocalRef_release_def)
qed

text \<open>
  C4. Over the life of a guard on the handle \<open>ref\<close> (construction, any uses, destruction) the
  calls added to the record are one \<^verbatim>\<open>DeleteLocalRef(ref)\<close> when \<open>ref\<close> is not null and
  \<^verbatim>\<open>release()\<close> was never called, and none otherwise: the handle is released at most once.
  \<^verbatim>\<open>release()\<close> returns the handle and nulls the reference, after which the destructor does
  nothing; the destructor of a guard built on a null handle does nothing.
\<close>

theorem scoped_guard_releases_at_most_once:
  "trace (guard_scope rt env ref us) =
     trace env @ (if ref \<noteq> nullptr \<and> Release \<notin> set us then [EDeleteLocalRef ref] else [])
   \<and> length (filter (\<lambda>c. c = EDeleteLocalRef ref) (trace (guard_scope rt env ref us)))
       \<le> length (filter (\<lambda>c. c = EDeleteLocalRef ref) (trace env)) + 1
   \<and> ScopedLocalRef_release g = (guard_ref g, g\<lparr>guard_ref := nullptr\<rparr>)
   \<and> ScopedLocalRef_dtor rt (snd (ScopedLocalRef_release g)) env = env
   \<and> (Release \<in> set us \<longrightarrow> guard_scope rt env ref us = env)
   \<and> ScopedLocalRef_dtor rt (ScopedLocalRef_ctor nullptr) env = env
   \<and> guard_scope rt env nullptr us = env"
  by (simp add: guard_scope_def ScopedLocalRef_dtor_def guard_uses_ref ScopedLocalRef_ctor_def
      ScopedLocalRef_release_def foreign_sel)

theorem scoped_guard_witness:
  "Release \<in> set [Get, Release, Get]
   \<and> guard_scope demo_rt demo_env 10 [Get, Release, Get] = demo_env
   \<and> trace (guard_scope demo_rt demo_env 10 [Get, Get]) = [EDeleteLocalRef 10]
   \<and> guard_scope demo_rt demo_env nullptr [Get] = demo_env"
  using scoped_guard_releases_at_most_once [of demo_rt demo_env 10 "[Get, Release, Get]"]
    scoped_guard_releases_at_most_once [of demo_rt demo_env 10 "[Get, Get]"]
    scoped_guard_releases_at_most_once [of demo_rt demo_env nullptr "[Get]"]
  by (simp add: demo_env_def)

section \<open>Strings\<close>

text \<open>
  C6. \<^verbatim>\<open>JStringToString\<close> has no throwing path: it returns a string in every case. For a
  null handle it returns the empty string and calls nothing; when \<^verbatim>\<open>GetStringUTFChars\<close>
  returns no buffer it returns the empty string; otherwise it returns the C string of the
  buffer and then calls \<^verbatim>\<open>ReleaseStringUTFChars\<close> on the buffer, and nothing else: the
  handle itself is not released.
\<close>

theorem JStringToString_never_fails:
  "(jstr = nullptr \<longrightarrow> JStringToString rt env jstr = ([], env))
   \<and> (jstr \<noteq> nullptr \<and> ret_chars (fst (foreign rt (EGetStringUTFChars jstr) env)) = None \<longrightarrow>
        JStringToString rt env jstr = ([], snd (foreign rt (EGetStringUTFChars jstr) env)))
   \<and> (jstr \<noteq> nullptr \<and> ret_chars (fst (foreign rt (EGetStringUTFChars jstr) env)) = Some chars \<longrightarrow>
        JStringToString rt env jstr =
          (cstring chars,
           snd (foreign rt (EReleaseStringUTFChars jstr chars)
                  (snd (foreign rt (EGetStringUTFChars jstr) env))))
        \<and> trace (snd (JStringToString rt env jstr)) =
            trace env @ [EGetStringUTFChars jstr, EReleaseStringUTFChars jstr chars])"
  by (simp add: JStringToString_def case_prod_beta Let_def foreign_sel)

theorem JStringToString_witness:
  "JStringToString demo_rt demo_env nullptr = ([], demo_env)
   \<and> (101 \<noteq> nullptr \<and> ret_chars (fst (foreign demo_rt (EGetStringUTFChars 101) demo_env)) = None)
   \<and> fst (JStringToString demo_rt demo_env 101) = []
   \<and> ((100::nat) \<noteq> nullptr \<and> ret_chars (fst (foreign demo_rt (EGetStringUTFChars 100) full_env)) = Some ''x'')
   \<and> JStringToString demo_rt full_env 100 =
       (''x'', full_env\<lparr>trace := [EGetStringUTFChars 100, EReleaseStringUTFChars 100 ''x'']\<rparr>)"
  using JStringToString_never_fails [of nullptr demo_rt demo_env]
    JStringToString_never_fails [of 101 demo_rt demo_env]
    JStringToString_never_fails [of 100 demo_rt full_env "''x''"]
  by (simp add: demo_env_def full_env_def foreign_def demo_simps cstring_def)










section \<open>Failures of the high-level functions\<close>

lemma checked_fault: "fails_with_fault_only (checked f env)"
  by (simp add: fails_with_fault_only_def checked_eq is_fault_def ForeignFault_def)

lemma fault_dtor:
  "fails_with_fault_only (fst res, ScopedLocalRef_dtor rt g (snd res)) = fails_with_fault_only res"
  by (simp add: fails_with_fault_only_def)

lemma fault_cases:
  assumes "fails_with_fault_only res"
    and "\<And>x. fst res = Inr x \<Longrightarrow> fails_with_fault_only (k x (snd res))"
  shows "fails_with_fault_only
           (case res of (Inl e, env1) \<Rightarrow> (Inl e, h env1) | (Inr x, env1) \<Rightarrow> k x env1)"
proof (cases res)
  case (Pair r env1)
  with assms show ?thesis
    by (cases r) (simp_all add: fails_with_fault_only_def)
qed

lemma fault_then_dtor:
  "fails_with_fault_only res \<Longrightarrow>
   fails_with_fault_only (case res of (r, env3) \<Rightarrow> (r, ScopedLocalRef_dtor rt g env3))"
  by (simp add: fails_with_fault_only_def case_prod_beta)

lemma CallMethod_body_fault:
  assumes "\<And>obj mid env. fails_with_fault_only (call obj mid env)"
  shows "fails_with_fault_only (CallMethod_body rt env obj methodName signature call)"
  unfolding CallMethod_body_def Let_def case_prod_beta [of _ "foreign_ref rt (EGetObjectClass obj) env"]
  by (rule fault_cases) (simp_all add: GetMethodID_def checked_fault fault_then_dtor assms)

lemma CallStaticMethod_body_fault:
  assumes "\<And>cls mid env. fails_with_fault_only (call cls mid env)"
  shows "fails_with_fault_only (CallStaticMethod_body rt env className methodName signature call)"
  unfolding CallStaticMethod_body_def Let_def
  by (rule fault_cases, simp add: FindClass_def checked_fault, rule fault_cases)
    (simp_all add: GetStaticMethodID_def checked_fault fault_then_dtor assms)

lemma CallMethod_noargs_fault:
  "CallMethod_noargs rt T = Some call \<Longrightarrow> fails_with_fault_only (call obj mid env)"
  by (auto simp: CallMethod_noargs_def checked_fault split: if_splits)

lemma CallMethod_args_fault:
  "CallMethod_args rt T args = Some call \<Longrightarrow> fails_with_fault_only (call obj mid env)"
  by (auto simp: CallMethod_args_def JNITypeTraits_CallMethod_def checked_fault case_prod_beta
      split: option.splits)

lemma CallStaticMethod_noargs_fault:
  "CallStaticMethod_noargs rt T = Some call \<Longrightarrow> fails_with_fault_only (call cls mid env)"
  by (auto simp: CallStaticMethod_noargs_def checked_fault split: if_splits)

lemma CallStaticMethod_args_fault:
  "CallStaticMethod_args rt T args = Some call \<Longrightarrow> fails_with_fault_only (call cls mid env)"
  by (auto simp: CallStaticMethod_args_def JNITypeTraits_CallStaticMethod_def checked_fault
      case_prod_beta split: option.splits)

lemma CallMethod_fault:
  "CallMethod rt T env obj methodName signature args = Some res \<Longrightarrow> fails_with_fault_only res"
  by (auto simp: CallMethod_def CallMethod_body_fault CallMethod_noargs_fault CallMethod_args_fault
      split: if_splits)

lemma CallStaticMethod_fault:
  "CallStaticMethod rt T env className methodName signature args = Some res \<Longrightarrow>
   fails_with_fault_only res"
  by (auto simp: CallStaticMethod_def CallStaticMethod_body_fault CallStaticMethod_noargs_fault
      CallStaticMethod_args_fault split: if_splits)

lemma NewObject_fault:
  "fails_with_fault_only (NewObject rt env className constructorSignature args)"
  unfolding NewObject_def Let_def
  by (rule fault_cases, simp add: FindClass_def checked_fault, rule fault_cases)
    (simp_all add: GetMethodID_def checked_fault fault_dtor case_prod_beta)

lemma cast_result_fault:
  "fails_with_fault_only (cast_result cast res) = fails_with_fault_only res"
  by (cases res) (simp add: cast_result_def fails_with_fault_only_def split: sum.splits)

lemma JNITypeTraits_GetField_fault:
  "JNITypeTraits_GetField rt T = Some member \<Longrightarrow> fails_with_fault_only (member obj fid env)"
  by (auto simp: JNITypeTraits_GetField_def checked_fault split: option.splits)

lemma JNITypeTraits_GetStaticField_fault:
  "JNITypeTraits_GetStaticField rt T = Some member \<Longrightarrow> fails_with_fault_only (member cls fid env)"
  by (auto simp: JNITypeTraits_GetStaticField_def checked_fault split: option.splits)

lemma GetField_fault:
  assumes "GetField rt T env obj fieldName signature = Some res"
  shows "fails_with_fault_only res"
proof -
  from assms [unfolded GetField_def Let_def]
  obtain T_signature T_GetField jobject_GetField cast where
    t: "JNITypeTraits_GetField rt T = Some T_GetField"
       "JNITypeTraits_GetField rt Tjobject = Some jobject_GetField"
    and res: "res =
      (case foreign_ref rt (EGetObjectClass obj) env of
         (cls, env1) \<Rightarrow>
           (case GetFieldID rt env1 cls fieldName
                   (case signature of Some s \<Rightarrow> s | None \<Rightarrow> T_signature) of
              (Inl e, env2) \<Rightarrow> (Inl e, ScopedLocalRef_dtor rt (ScopedLocalRef_ctor cls) env2)
            | (Inr fid, env2) \<Rightarrow>
                (case (if signature \<noteq> None
                       then cast_result cast (jobject_GetField obj fid env2)
                       else T_GetField obj fid env2) of
                   (r, env3) \<Rightarrow> (r, ScopedLocalRef_dtor rt (ScopedLocalRef_ctor cls) env3))))"
    by (auto split: option.splits)
  show ?thesis
    unfolding res case_prod_beta [of _ "foreign_ref rt (EGetObjectClass obj) env"]
    by (rule fault_cases)
      (simp_all add: GetFieldID_def checked_fault fault_then_dtor cast_result_fault
        JNITypeTraits_GetField_fault [OF t(1)] JNITypeTraits_GetField_fault [OF t(2)])
qed

lemma GetStaticField_fault:
  assumes "GetStaticField rt T env className fieldName signature = Some res"
  shows "fails_with_fault_only res"
proof -
  from assms [unfolded GetStaticField_def Let_def]
  obtain T_signature T_GetStaticField jobject_GetStaticField cast where
    t: "JNITypeTraits_GetStaticField rt T = Some T_GetStaticField"
       "JNITypeTraits_GetStaticField rt Tjobject = Some jobject_GetStaticField"
    and res: "res =
      (case FindClass rt env className of
         (Inl e, env1) \<Rightarrow> (Inl e, env1)
       | (Inr cls, env1) \<Rightarrow>
           (case GetStaticFieldID rt env1 cls fieldName
                   (case signature of Some s \<Rightarrow> s | None \<Rightarrow> T_signature) of
              (Inl e, env2) \<Rightarrow> (Inl e, ScopedLocalRef_dtor rt (ScopedLocalRef_ctor cls) env2)
            | (Inr fid, env2) \<Rightarrow>
                (case (if signature \<noteq> None
                       then cast_result cast (jobject_GetStaticField cls fid env2)
                       else T_GetStaticField cls fid env2) of
                   (r, env3) \<Rightarrow> (r, ScopedLocalRef_dtor rt (ScopedLocalRef_ctor cls) env3))))"
    by (auto split: option.splits)
  show ?thesis
    unfolding res
    by (rule fault_cases, simp add: FindClass_def checked_fault, rule fault_cases)
      (simp_all add: GetStaticFieldID_def checked_fault fault_then_dtor cast_result_fault
        JNITypeTraits_GetStaticField_fault [OF t(1)] JNITypeTraits_GetStaticField_fault [OF t(2)])
qed

lemma CallMethod_body_lookup:
  "pending (snd (foreign_ref rt
       (EGetMethodID (fst (foreign_ref rt (EGetObjectClass obj) env)) methodName signature)
       (snd (foreign_ref rt (EGetObjectClass obj) env)))) = t \<Longrightarrow> t \<noteq> nullptr \<Longrightarrow>
   fst (CallMethod_body rt env obj methodName signature call) = Inl (ForeignFault t)"
  by (simp add: CallMethod_body_def case_prod_beta GetMethodID_def checked_eq ForeignFault_def Let_def)

lemma CallStaticMethod_body_class_lookup:
  "pending (snd (foreign_ref rt (EFindClass className) env)) = t \<Longrightarrow> t \<noteq> nullptr \<Longrightarrow>
   fst (CallStaticMethod_body rt env className methodName signature call) = Inl (ForeignFault t)"
  by (simp add: CallStaticMethod_body_def FindClass_def checked_eq ForeignFault_def)

lemma CallStaticMethod_body_lookup:
  "FindClass rt env className = (Inr cls, env1) \<Longrightarrow>
   pending (snd (foreign_ref rt (EGetStaticMethodID cls methodName signature) env1)) = t \<Longrightarrow>
   t \<noteq> nullptr \<Longrightarrow>
   fst (CallStaticMethod_body rt env className methodName signature call) = Inl (ForeignFault t)"
  by (simp add: CallStaticMethod_body_def GetStaticMethodID_def checked_eq ForeignFault_def Let_def)

lemma NewObject_class_lookup:
  "pending (snd (foreign_ref rt (EFindClass className) env)) = t \<Longrightarrow> t \<noteq> nullptr \<Longrightarrow>
   fst (NewObject rt env className constructorSignature args) = Inl (ForeignFault t)"
  by (simp add: NewObject_def FindClass_def checked_eq ForeignFault_def)

lemma NewObject_lookup:
  "FindClass rt env className = (Inr cls, env1) \<Longrightarrow>
   pending (snd (foreign_ref rt (EGetMethodID cls ''<init>'' constructorSignature) env1)) = t \<Longrightarrow>
   t \<noteq> nullptr \<Longrightarrow>
   fst (NewObject rt env className constructorSignature args) = Inl (ForeignFault t)"
  by (simp add: NewObject_def GetMethodID_def checked_eq ForeignFault_def Let_def)

lemma GetField_lookup:
  assumes "GetField rt T env obj fieldName fieldSignature = Some res"
    and "JNITypeTraits_signature T = Some T_signature"
    and "pending (snd (foreign_ref rt
           (EGetFieldID (fst (foreign_ref rt (EGetObjectClass obj) env)) fieldName
              (case fieldSignature of Some s \<Rightarrow> s | None \<Rightarrow> T_signature))
           (snd (foreign_ref rt (EGetObjectClass obj) env)))) = t"
    and "t \<noteq> nullptr"
  shows "fst res = Inl (ForeignFault t)"
  using assms
  by (auto simp: GetField_def GetFieldID_def checked_eq ForeignFault_def Let_def case_prod_beta
      split: option.splits)

lemma GetStaticField_class_lookup:
  assumes "GetStaticField rt T env className fieldName fieldSignature = Some res"
    and "pending (snd (foreign_ref rt (EFindClass className) env)) = t"
    and "t \<noteq> nullptr"
  shows "fst res = Inl (ForeignFault t)"
  using assms
  by (auto simp: GetStaticField_def FindClass_def checked_eq ForeignFault_def
      split: option.splits)

lemma GetStaticField_lookup:
  assumes "GetStaticField rt T env className fieldName fieldSignature = Some res"
    and "JNITypeTraits_signature T = Some T_signature"
    and "FindClass rt env className = (Inr cls, env1)"
    and "pending (snd (foreign_ref rt
           (EGetStaticFieldID cls fieldName
              (case fieldSignature of Some s \<Rightarrow> s | None \<Rightarrow> T_signature)) env1)) = t"
    and "t \<noteq> nullptr"
  shows "fst res = Inl (ForeignFault t)"
  using assms
  by (auto simp: GetStaticField_def GetStaticFieldID_def checked_eq ForeignFault_def Let_def
      split: option.splits)

lemma CallMethod_lookup:
  "CallMethod rt T env obj methodName signature args = Some res \<Longrightarrow>
   pending (snd (foreign_ref rt
       (EGetMethodID (fst (foreign_ref rt (EGetObjectClass obj) env)) methodName signature)
       (snd (foreign_ref rt (EGetObjectClass obj) env)))) = t \<Longrightarrow> t \<noteq> nullptr \<Longrightarrow>
   fst res = Inl (ForeignFault t)"
  by (auto simp: CallMethod_def CallMethod_body_lookup)

lemma CallStaticMethod_class_lookup:
  "CallStaticMethod rt T env className methodName signature args = Some res \<Longrightarrow>
   pending (snd (foreign_ref rt (EFindClass className) env)) = t \<Longrightarrow> t \<noteq> nullptr \<Longrightarrow>
   fst res = Inl (ForeignFault t)"
  by (auto simp: CallStaticMethod_def CallStaticMethod_body_class_lookup)

lemma CallStaticMethod_lookup:
  "CallStaticMethod rt T env className methodName signature args = Some res \<Longrightarrow>
   FindClass rt env className = (Inr cls, env1) \<Longrightarrow>
   pending (snd (foreign_ref rt (EGetStaticMethodID cls methodName signature) env1)) = t \<Longrightarrow>
   t \<noteq> nullptr \<Longrightarrow>
   fst res = Inl (ForeignFault t)"
  by (auto simp: CallStaticMethod_def CallStaticMethod_body_lookup)

text \<open>
  C2, as stated, fails: the header has no second kind of failure. The lookup of a method
  name that does not exist leaves the runtime's exception (here 91) pending, and
  \<^verbatim>\<open>GetMethodID\<close> throws it through \<^verbatim>\<open>JNI_CHECK_EXCEPTION\<close>: the call fails with the very
  exception that the bridge throws for a pending foreign fault.
\<close>

theorem lookup_failure_counterexample:
  "map_option fst (CallMethod demo_rt Tjint demo_env 1 ''missing'' ''()I'' []) =
     Some (Inl (ForeignFault 91))
   \<and> fst (JNI_CHECK_EXCEPTION (demo_env\<lparr>pending := 91\<rparr>)) = Inl (ForeignFault 91)"
  by (simp add: CallMethod_def CallMethod_noargs_def CallMethod_body_def GetMethodID_def
      checked_eq foreign_ref_def foreign_def demo_simps demo_env_def ForeignFault_def
      JNI_CHECK_EXCEPTION_eq)

text \<open>
  C2, amended. There is one kind of failure: whenever \<^verbatim>\<open>CallMethod\<close>,
  \<^verbatim>\<open>CallStaticMethod\<close>, \<^verbatim>\<open>NewObject\<close>, \<^verbatim>\<open>GetField\<close> or \<^verbatim>\<open>GetStaticField\<close> fails, the
  failure is the exception of the bridge, carrying a fault handle that is not null. In
  each of the five, a lookup of the class, the method, the constructor or the field that
  leaves the fault \<open>t\<close> pending makes the operation fail with that kind, carrying \<open>t\<close>.
\<close>

theorem failures_are_foreign_faults:
  "(CallMethod rt T env obj methodName signature args = Some res1 \<longrightarrow> fails_with_fault_only res1)
   \<and> (CallStaticMethod rt T env className methodName signature args = Some res2 \<longrightarrow>
        fails_with_fault_only res2)
   \<and> fails_with_fault_only (NewObject rt env className constructorSignature args)
   \<and> (GetField rt T env obj fieldName fieldSignature = Some res3 \<longrightarrow> fails_with_fault_only res3)
   \<and> (GetStaticField rt T env className fieldName fieldSignature = Some res4 \<longrightarrow>
        fails_with_fault_only res4)
   \<and> (CallMethod rt T env obj methodName signature args = Some res1
        \<and> pending (snd (foreign_ref rt
              (EGetMethodID (fst (foreign_ref rt (EGetObjectClass obj) env)) methodName signature)
              (snd (foreign_ref rt (EGetObjectClass obj) env)))) = t
        \<and> t \<noteq> nullptr \<longrightarrow>
        fst res1 = Inl (ForeignFault t))
   \<and> (CallStaticMethod rt T env className methodName signature args = Some res2
        \<and> pending (snd (foreign_ref rt (EFindClass className) env)) = t
        \<and> t \<noteq> nullptr \<longrightarrow>
        fst res2 = Inl (ForeignFault t))
   \<and> (CallStaticMethod rt T env className methodName signature args = Some res2
        \<and> FindClass rt env className = (Inr cls, env1)
        \<and> pending (snd (foreign_ref rt (EGetStaticMethodID cls methodName signature) env1)) = t
        \<and> t \<noteq> nullptr \<longrightarrow>
        fst res2 = Inl (ForeignFault t))
   \<and> (pending (snd (foreign_ref rt (EFindClass className) env)) = t \<and> t \<noteq> nullptr \<longrightarrow>
        fst (NewObject rt env className constructorSignature args) = Inl (ForeignFault t))
   \<and> (FindClass rt env className = (Inr cls, env1)
        \<and> pending (snd (foreign_ref rt (EGetMethodID cls ''<init>'' constructorSignature) env1)) = t
        \<and> t \<noteq> nullptr \<longrightarrow>
        fst (NewObject rt env className constructorSignature args) = Inl (ForeignFault t))
   \<and> (GetField rt T env obj fieldName fieldSignature = Some res3
        \<and> JNITypeTraits_signature T = Some T_signature
        \<and> pending (snd (foreign_ref rt
              (EGetFieldID (fst (foreign_ref rt (EGetObjectClass obj) env)) fieldName
                 (case fieldSignature of Some s \<Rightarrow> s | None \<Rightarrow> T_signature))
              (snd (foreign_ref rt (EGetObjectClass obj) env)))) = t
        \<and> t \<noteq> nullptr \<longrightarrow>
        fst res3 = Inl (ForeignFault t))
   \<and> (GetStaticField rt T env className fieldName fieldSignature = Some res4
        \<and> pending (snd (foreign_ref rt (EFindClass className) env)) = t
        \<and> t \<noteq> nullptr \<longrightarrow>
        fst res4 = Inl (ForeignFault t))
   \<and> (GetStaticField rt T env className fieldName fieldSignature = Some res4
        \<and> JNITypeTraits_signature T = Some T_signature
        \<and> FindClass rt env className = (Inr cls, env1)
        \<and> pending (snd (foreign_ref rt
              (EGetStaticFieldID cls fieldName
                 (case fieldSignature of Some s \<Rightarrow> s | None \<Rightarrow> T_signature)) env1)) = t
        \<and> t \<noteq> nullptr \<longrightarrow>
        fst res4 = Inl (ForeignFault t))"
  using CallMethod_fault [of rt T env obj methodName signature args res1]
    CallStaticMethod_fault [of rt T env className methodName signature args res2]
    NewObject_fault [of rt env className constructorSignature args]
    GetField_fault [of rt T env obj fieldName fieldSignature res3]
    GetStaticField_fault [of rt T env className fieldName fieldSignature res4]
    CallMethod_lookup [of rt T env obj methodName signature args res1 t]
    CallStaticMethod_class_lookup [of rt T env className methodName signature args res2 t]
    CallStaticMethod_lookup [of rt T env className methodName signature args res2 cls env1 t]
    NewObject_class_lookup [of rt className env t constructorSignature args]
    NewObject_lookup [of rt env className cls env1 constructorSignature t args]
    GetField_lookup [of rt T env obj fieldName fieldSignature res3 T_signature t]
    GetStaticField_class_lookup [of rt T env className fieldName fieldSignature res4 t]
    GetStaticField_lookup [of rt T env className fieldName fieldSignature res4 T_signature cls env1 t]
  by blast

lemma no_members_simps:
  "no_members_rt (EFindClass name) h p = demo_rt (EFindClass name) h p"
  "no_members_rt (EGetObjectClass obj) h p = demo_rt (EGetObjectClass obj) h p"
  "no_members_rt (EGetMethodID cls name sig) h p = (RVal (JL nullptr), h, 91)"
  "no_members_rt (EGetStaticMethodID cls name sig) h p = (RVal (JL nullptr), h, 91)"
  "no_members_rt (EGetFieldID cls name sig) h p = (RVal (JL nullptr), h, 92)"
  "no_members_rt (EGetStaticFieldID cls name sig) h p = (RVal (JL nullptr), h, 92)"
  "no_members_rt (EDeleteLocalRef obj) h p = demo_rt (EDeleteLocalRef obj) h p"
  by (simp_all add: no_members_rt_def)

theorem failures_are_foreign_faults_witness:
  "CallMethod demo_rt Tjint demo_env 1 ''missing'' ''()I'' [] = Some (Inl (ForeignFault 91),
       \<lparr>heap = [], pending = nullptr, trace = [EGetObjectClass 1, EGetMethodID 10
       ''missing'' ''()I'', EExceptionCheck, EExceptionOccurred, EExceptionDescribe,
       EExceptionClear, EDeleteLocalRef 10]\<rparr>)
   \<and> pending (snd (foreign_ref demo_rt (EGetMethodID (fst (foreign_ref demo_rt (EGetObjectClass
       1) demo_env)) ''missing'' ''()I'') (snd (foreign_ref demo_rt (EGetObjectClass 1)
       demo_env)))) = 91
   \<and> CallStaticMethod demo_rt Tjint demo_env ''no/such/Class'' ''missing'' ''()I'' [] = Some (Inl
       (ForeignFault 90), \<lparr>heap = [], pending = nullptr, trace = [EFindClass
       ''no/such/Class'', EExceptionCheck, EExceptionOccurred, EExceptionDescribe,
       EExceptionClear]\<rparr>)
   \<and> pending (snd (foreign_ref demo_rt (EFindClass ''no/such/Class'') demo_env)) = 90
   \<and> CallStaticMethod demo_rt Tjint demo_env ''java/lang/String'' ''missing'' ''()I'' [] = Some
       (Inl (ForeignFault 91), \<lparr>heap = [], pending = nullptr, trace = [EFindClass
       ''java/lang/String'', EExceptionCheck, EGetStaticMethodID 10 ''missing'' ''()I'',
       EExceptionCheck, EExceptionOccurred, EExceptionDescribe, EExceptionClear, EDeleteLocalRef
       10]\<rparr>)
   \<and> FindClass demo_rt demo_env ''java/lang/String'' = (Inr 10, \<lparr>heap = [], pending =
       nullptr, trace = [EFindClass ''java/lang/String'', EExceptionCheck]\<rparr>)
   \<and> pending (snd (foreign_ref demo_rt (EGetStaticMethodID 10 ''missing'' ''()I'') \<lparr>heap =
       [], pending = nullptr, trace = [EFindClass ''java/lang/String'', EExceptionCheck]\<rparr>))
       = 91
   \<and> FindClass no_members_rt demo_env ''java/lang/String'' = (Inr 10, \<lparr>heap = [], pending
       = nullptr, trace = [EFindClass ''java/lang/String'', EExceptionCheck]\<rparr>)
   \<and> pending (snd (foreign_ref no_members_rt (EGetMethodID 10 ''<init>'' ''()V'') \<lparr>heap =
       [], pending = nullptr, trace = [EFindClass ''java/lang/String'', EExceptionCheck]\<rparr>))
       = 91
   \<and> GetField demo_rt Tjstring demo_env 1 ''missing'' None = Some (Inl (ForeignFault 92),
       \<lparr>heap = [], pending = nullptr, trace = [EGetObjectClass 1, EGetFieldID 10 ''missing''
       ''Ljava/lang/String;'', EExceptionCheck, EExceptionOccurred, EExceptionDescribe,
       EExceptionClear, EDeleteLocalRef 10]\<rparr>)
   \<and> JNITypeTraits_signature Tjstring = Some ''Ljava/lang/String;''
   \<and> pending (snd (foreign_ref demo_rt (EGetFieldID (fst (foreign_ref demo_rt (EGetObjectClass 1)
       demo_env)) ''missing'' ''Ljava/lang/String;'') (snd (foreign_ref demo_rt (EGetObjectClass 1)
       demo_env)))) = 92
   \<and> GetStaticField demo_rt Tjstring demo_env ''no/such/Class'' ''value'' None = Some (Inl
       (ForeignFault 90), \<lparr>heap = [], pending = nullptr, trace = [EFindClass
       ''no/such/Class'', EExceptionCheck, EExceptionOccurred, EExceptionDescribe,
       EExceptionClear]\<rparr>)
   \<and> GetStaticField demo_rt Tjstring demo_env ''java/lang/String'' ''missing'' None = Some (Inl
       (ForeignFault 92), \<lparr>heap = [], pending = nullptr, trace = [EFindClass
       ''java/lang/String'', EExceptionCheck, EGetStaticFieldID 10 ''missing''
       ''Ljava/lang/String;'', EExceptionCheck, EExceptionOccurred, EExceptionDescribe,
       EExceptionClear, EDeleteLocalRef 10]\<rparr>)
   \<and> pending (snd (foreign_ref demo_rt (EGetStaticFieldID 10 ''missing'' ''Ljava/lang/String;'')
       \<lparr>heap = [], pending = nullptr, trace = [EFindClass ''java/lang/String'',
       EExceptionCheck]\<rparr>)) = 92
   \<and> is_fault (ForeignFault 91)
   \<and> is_fault (ForeignFault 90)
   \<and> is_fault (ForeignFault 92)
   \<and> fst (NewObject demo_rt demo_env ''no/such/Class'' ''()V'' []) = Inl (ForeignFault 90)
   \<and> fst (NewObject no_members_rt demo_env ''java/lang/String'' ''()V'' []) = Inl (ForeignFault
       91)"
proof -
  have m1: "CallMethod demo_rt Tjint demo_env 1 ''missing'' ''()I'' [] = Some (Inl (ForeignFault 91),
      \<lparr>heap = [], pending = nullptr, trace = [EGetObjectClass 1, EGetMethodID 10
      ''missing'' ''()I'', EExceptionCheck, EExceptionOccurred, EExceptionDescribe,
      EExceptionClear, EDeleteLocalRef 10]\<rparr>)"
    by (simp add: CallMethod_def CallMethod_noargs_def CallMethod_body_def CallStaticMethod_def
        CallStaticMethod_noargs_def CallStaticMethod_body_def GetField_def GetStaticField_def
        JNITypeTraits_signature_def JNITypeTraits_GetField_def JNITypeTraits_GetStaticField_def
        FindClass_def GetMethodID_def GetStaticMethodID_def GetFieldID_def GetStaticFieldID_def
        checked_eq foreign_ref_def foreign_def demo_simps no_members_simps demo_env_def
        ForeignFault_def ScopedLocalRef_dtor_def ScopedLocalRef_ctor_def)
  have m2: "pending (snd (foreign_ref demo_rt (EGetMethodID (fst (foreign_ref demo_rt (EGetObjectClass
      1) demo_env)) ''missing'' ''()I'') (snd (foreign_ref demo_rt (EGetObjectClass 1)
      demo_env)))) = 91"
    by (simp add: CallMethod_def CallMethod_noargs_def CallMethod_body_def CallStaticMethod_def
        CallStaticMethod_noargs_def CallStaticMethod_body_def GetField_def GetStaticField_def
        JNITypeTraits_signature_def JNITypeTraits_GetField_def JNITypeTraits_GetStaticField_def
        FindClass_def GetMethodID_def GetStaticMethodID_def GetFieldID_def GetStaticFieldID_def
        checked_eq foreign_ref_def foreign_def demo_simps no_members_simps demo_env_def
        ForeignFault_def ScopedLocalRef_dtor_def ScopedLocalRef_ctor_def)
  have s1: "CallStaticMethod demo_rt Tjint demo_env ''no/such/Class'' ''missing'' ''()I'' [] = Some (Inl
      (ForeignFault 90), \<lparr>heap = [], pending = nullptr, trace = [EFindClass
      ''no/such/Class'', EExceptionCheck, EExceptionOccurred, EExceptionDescribe,
      EExceptionClear]\<rparr>)"
    by (simp add: CallMethod_def CallMethod_noargs_def CallMethod_body_def CallStaticMethod_def
        CallStaticMethod_noargs_def CallStaticMethod_body_def GetField_def GetStaticField_def
        JNITypeTraits_signature_def JNITypeTraits_GetField_def JNITypeTraits_GetStaticField_def
        FindClass_def GetMethodID_def GetStaticMethodID_def GetFieldID_def GetStaticFieldID_def
        checked_eq foreign_ref_def foreign_def demo_simps no_members_simps demo_env_def
        ForeignFault_def ScopedLocalRef_dtor_def ScopedLocalRef_ctor_def)
  have c1: "pending (snd (foreign_ref demo_rt (EFindClass ''no/such/Class'') demo_env)) = 90"
    by (simp add: CallMethod_def CallMethod_noargs_def CallMethod_body_def CallStaticMethod_def
        CallStaticMethod_noargs_def CallStaticMethod_body_def GetField_def GetStaticField_def
        JNITypeTraits_signature_def JNITypeTraits_GetField_def JNITypeTraits_GetStaticField_def
        FindClass_def GetMethodID_def GetStaticMethodID_def GetFieldID_def GetStaticFieldID_def
        checked_eq foreign_ref_def foreign_def demo_simps no_members_simps demo_env_def
        ForeignFault_def ScopedLocalRef_dtor_def ScopedLocalRef_ctor_def)
  have s2: "CallStaticMethod demo_rt Tjint demo_env ''java/lang/String'' ''missing'' ''()I'' [] = Some
      (Inl (ForeignFault 91), \<lparr>heap = [], pending = nullptr, trace = [EFindClass
      ''java/lang/String'', EExceptionCheck, EGetStaticMethodID 10 ''missing'' ''()I'',
      EExceptionCheck, EExceptionOccurred, EExceptionDescribe, EExceptionClear, EDeleteLocalRef
      10]\<rparr>)"
    by (simp add: CallMethod_def CallMethod_noargs_def CallMethod_body_def CallStaticMethod_def
        CallStaticMethod_noargs_def CallStaticMethod_body_def GetField_def GetStaticField_def
        JNITypeTraits_signature_def JNITypeTraits_GetField_def JNITypeTraits_GetStaticField_def
        FindClass_def GetMethodID_def GetStaticMethodID_def GetFieldID_def GetStaticFieldID_def
        checked_eq foreign_ref_def foreign_def demo_simps no_members_simps demo_env_def
        ForeignFault_def ScopedLocalRef_dtor_def ScopedLocalRef_ctor_def)
  have c2: "FindClass demo_rt demo_env ''java/lang/String'' = (Inr 10, \<lparr>heap = [], pending =
      nullptr, trace = [EFindClass ''java/lang/String'', EExceptionCheck]\<rparr>)"
    by (simp add: CallMethod_def CallMethod_noargs_def CallMethod_body_def CallStaticMethod_def
        CallStaticMethod_noargs_def CallStaticMethod_body_def GetField_def GetStaticField_def
        JNITypeTraits_signature_def JNITypeTraits_GetField_def JNITypeTraits_GetStaticField_def
        FindClass_def GetMethodID_def GetStaticMethodID_def GetFieldID_def GetStaticFieldID_def
        checked_eq foreign_ref_def foreign_def demo_simps no_members_simps demo_env_def
        ForeignFault_def ScopedLocalRef_dtor_def ScopedLocalRef_ctor_def)
  have s3: "pending (snd (foreign_ref demo_rt (EGetStaticMethodID 10 ''missing'' ''()I'') \<lparr>heap =
      [], pending = nullptr, trace = [EFindClass ''java/lang/String'', EExceptionCheck]\<rparr>))
      = 91"
    by (simp add: CallMethod_def CallMethod_noargs_def CallMethod_body_def CallStaticMethod_def
        CallStaticMethod_noargs_def CallStaticMethod_body_def GetField_def GetStaticField_def
        JNITypeTraits_signature_def JNITypeTraits_GetField_def JNITypeTraits_GetStaticField_def
        FindClass_def GetMethodID_def GetStaticMethodID_def GetFieldID_def GetStaticFieldID_def
        checked_eq foreign_ref_def foreign_def demo_simps no_members_simps demo_env_def
        ForeignFault_def ScopedLocalRef_dtor_def ScopedLocalRef_ctor_def)
  have c3: "FindClass no_members_rt demo_env ''java/lang/String'' = (Inr 10, \<lparr>heap = [], pending
      = nullptr, trace = [EFindClass ''java/lang/String'', EExceptionCheck]\<rparr>)"
    by (simp add: CallMethod_def CallMethod_noargs_def CallMethod_body_def CallStaticMethod_def
        CallStaticMethod_noargs_def CallStaticMethod_body_def GetField_def GetStaticField_def
        JNITypeTraits_signature_def JNITypeTraits_GetField_def JNITypeTraits_GetStaticField_def
        FindClass_def GetMethodID_def GetStaticMethodID_def GetFieldID_def GetStaticFieldID_def
        checked_eq foreign_ref_def foreign_def demo_simps no_members_simps demo_env_def
        ForeignFault_def ScopedLocalRef_dtor_def ScopedLocalRef_ctor_def)
  have n1: "pending (snd (foreign_ref no_members_rt (EGetMethodID 10 ''<init>'' ''()V'') \<lparr>heap =
      [], pending = nullptr, trace = [EFindClass ''java/lang/String'', EExceptionCheck]\<rparr>))
      = 91"
    by (simp add: CallMethod_def CallMethod_noargs_def CallMethod_body_def CallStaticMethod_def
        CallStaticMethod_noargs_def CallStaticMethod_body_def GetField_def GetStaticField_def
        JNITypeTraits_signature_def JNITypeTraits_GetField_def JNITypeTraits_GetStaticField_def
        FindClass_def GetMethodID_def GetStaticMethodID_def GetFieldID_def GetStaticFieldID_def
        checked_eq foreign_ref_def foreign_def demo_simps no_members_simps demo_env_def
        ForeignFault_def ScopedLocalRef_dtor_def ScopedLocalRef_ctor_def)
  have g1: "GetField demo_rt Tjstring demo_env 1 ''missing'' None = Some (Inl (ForeignFault 92),
      \<lparr>heap = [], pending = nullptr, trace = [EGetObjectClass 1, EGetFieldID 10 ''missing''
      ''Ljava/lang/String;'', EExceptionCheck, EExceptionOccurred, EExceptionDescribe,
      EExceptionClear, EDeleteLocalRef 10]\<rparr>)"
    by (simp add: CallMethod_def CallMethod_noargs_def CallMethod_body_def CallStaticMethod_def
        CallStaticMethod_noargs_def CallStaticMethod_body_def GetField_def GetStaticField_def
        JNITypeTraits_signature_def JNITypeTraits_GetField_def JNITypeTraits_GetStaticField_def
        FindClass_def GetMethodID_def GetStaticMethodID_def GetFieldID_def GetStaticFieldID_def
        checked_eq foreign_ref_def foreign_def demo_simps no_members_simps demo_env_def
        ForeignFault_def ScopedLocalRef_dtor_def ScopedLocalRef_ctor_def)
  have g2: "JNITypeTraits_signature Tjstring = Some ''Ljava/lang/String;''"
    by (simp add: CallMethod_def CallMethod_noargs_def CallMethod_body_def CallStaticMethod_def
        CallStaticMethod_noargs_def CallStaticMethod_body_def GetField_def GetStaticField_def
        JNITypeTraits_signature_def JNITypeTraits_GetField_def JNITypeTraits_GetStaticField_def
        FindClass_def GetMethodID_def GetStaticMethodID_def GetFieldID_def GetStaticFieldID_def
        checked_eq foreign_ref_def foreign_def demo_simps no_members_simps demo_env_def
        ForeignFault_def ScopedLocalRef_dtor_def ScopedLocalRef_ctor_def)
  have g3: "pending (snd (foreign_ref demo_rt (EGetFieldID (fst (foreign_ref demo_rt (EGetObjectClass 1)
      demo_env)) ''missing'' ''Ljava/lang/String;'') (snd (foreign_ref demo_rt (EGetObjectClass 1)
      demo_env)))) = 92"
    by (simp add: CallMethod_def CallMethod_noargs_def CallMethod_body_def CallStaticMethod_def
        CallStaticMethod_noargs_def CallStaticMethod_body_def GetField_def GetStaticField_def
        JNITypeTraits_signature_def JNITypeTraits_GetField_def JNITypeTraits_GetStaticField_def
        FindClass_def GetMethodID_def GetStaticMethodID_def GetFieldID_def GetStaticFieldID_def
        checked_eq foreign_ref_def foreign_def demo_simps no_members_simps demo_env_def
        ForeignFault_def ScopedLocalRef_dtor_def ScopedLocalRef_ctor_def)
  have f1: "GetStaticField demo_rt Tjstring demo_env ''no/such/Class'' ''value'' None = Some (Inl
      (ForeignFault 90), \<lparr>heap = [], pending = nullptr, trace = [EFindClass
      ''no/such/Class'', EExceptionCheck, EExceptionOccurred, EExceptionDescribe,
      EExceptionClear]\<rparr>)"
    by (simp add: CallMethod_def CallMethod_noargs_def CallMethod_body_def CallStaticMethod_def
        CallStaticMethod_noargs_def CallStaticMethod_body_def GetField_def GetStaticField_def
        JNITypeTraits_signature_def JNITypeTraits_GetField_def JNITypeTraits_GetStaticField_def
        FindClass_def GetMethodID_def GetStaticMethodID_def GetFieldID_def GetStaticFieldID_def
        checked_eq foreign_ref_def foreign_def demo_simps no_members_simps demo_env_def
        ForeignFault_def ScopedLocalRef_dtor_def ScopedLocalRef_ctor_def)
  have f2: "GetStaticField demo_rt Tjstring demo_env ''java/lang/String'' ''missing'' None = Some (Inl
      (ForeignFault 92), \<lparr>heap = [], pending = nullptr, trace = [EFindClass
      ''java/lang/String'', EExceptionCheck, EGetStaticFieldID 10 ''missing''
      ''Ljava/lang/String;'', EExceptionCheck, EExceptionOccurred, EExceptionDescribe,
      EExceptionClear, EDeleteLocalRef 10]\<rparr>)"
    by (simp add: CallMethod_def CallMethod_noargs_def CallMethod_body_def CallStaticMethod_def
        CallStaticMethod_noargs_def CallStaticMethod_body_def GetField_def GetStaticField_def
        JNITypeTraits_signature_def JNITypeTraits_GetField_def JNITypeTraits_GetStaticField_def
        FindClass_def GetMethodID_def GetStaticMethodID_def GetFieldID_def GetStaticFieldID_def
        checked_eq foreign_ref_def foreign_def demo_simps no_members_simps demo_env_def
        ForeignFault_def ScopedLocalRef_dtor_def ScopedLocalRef_ctor_def)
  have f3: "pending (snd (foreign_ref demo_rt (EGetStaticFieldID 10 ''missing'' ''Ljava/lang/String;'')
      \<lparr>heap = [], pending = nullptr, trace = [EFindClass ''java/lang/String'',
      EExceptionCheck]\<rparr>)) = 92"
    by (simp add: CallMethod_def CallMethod_noargs_def CallMethod_body_def CallStaticMethod_def
        CallStaticMethod_noargs_def CallStaticMethod_body_def GetField_def GetStaticField_def
        JNITypeTraits_signature_def JNITypeTraits_GetField_def JNITypeTraits_GetStaticField_def
        FindClass_def GetMethodID_def GetStaticMethodID_def GetFieldID_def GetStaticFieldID_def
        checked_eq foreign_ref_def foreign_def demo_simps no_members_simps demo_env_def
        ForeignFault_def ScopedLocalRef_dtor_def ScopedLocalRef_ctor_def)
  note A = failures_are_foreign_faults [where rt = demo_rt and T = Tjint and env = demo_env
      and obj = 1 and methodName = "''missing''" and signature = "''()I''" and args = "[]"
      and t = 91 and ?res1.0 = "(Inl (ForeignFault 91), \<lparr>heap = [], pending = nullptr, trace = [EGetObjectClass 1,
          EGetMethodID 10 ''missing'' ''()I'', EExceptionCheck, EExceptionOccurred,
          EExceptionDescribe, EExceptionClear, EDeleteLocalRef 10]\<rparr>)"]
  note B = failures_are_foreign_faults [where rt = demo_rt and T = Tjint and env = demo_env
      and className = "''no/such/Class''" and methodName = "''missing''" and signature = "''()I''"
      and args = "[]" and constructorSignature = "''()V''" and t = 90
      and ?res2.0 = "(Inl (ForeignFault 90), \<lparr>heap = [], pending = nullptr, trace = [EFindClass
          ''no/such/Class'', EExceptionCheck, EExceptionOccurred, EExceptionDescribe,
          EExceptionClear]\<rparr>)"]
  note C = failures_are_foreign_faults [where rt = demo_rt and T = Tjint and env = demo_env
      and className = "''java/lang/String''" and methodName = "''missing''"
      and signature = "''()I''" and args = "[]" and cls = 10 and t = 91
      and ?env1.0 = "\<lparr>heap = [], pending = nullptr, trace = [EFindClass ''java/lang/String'',
          EExceptionCheck]\<rparr>"
      and ?res2.0 = "(Inl (ForeignFault 91), \<lparr>heap = [], pending = nullptr, trace = [EFindClass
          ''java/lang/String'', EExceptionCheck, EGetStaticMethodID 10 ''missing'' ''()I'',
          EExceptionCheck, EExceptionOccurred, EExceptionDescribe, EExceptionClear, EDeleteLocalRef
          10]\<rparr>)"]
  note D = failures_are_foreign_faults [where rt = no_members_rt and env = demo_env
      and className = "''java/lang/String''" and constructorSignature = "''()V''" and args = "[]"
      and cls = 10 and t = 91
      and ?env1.0 = "\<lparr>heap = [], pending = nullptr, trace = [EFindClass ''java/lang/String'',
          EExceptionCheck]\<rparr>"]
  note F = failures_are_foreign_faults [where rt = demo_rt and T = Tjstring and env = demo_env
      and obj = 1 and fieldName = "''missing''" and fieldSignature = None
      and T_signature = "''Ljava/lang/String;''" and t = 92
      and ?res3.0 = "(Inl (ForeignFault 92), \<lparr>heap = [], pending = nullptr, trace = [EGetObjectClass 1,
          EGetFieldID 10 ''missing'' ''Ljava/lang/String;'', EExceptionCheck, EExceptionOccurred,
          EExceptionDescribe, EExceptionClear, EDeleteLocalRef 10]\<rparr>)"]
  note G = failures_are_foreign_faults [where rt = demo_rt and T = Tjstring and env = demo_env
      and className = "''no/such/Class''" and fieldName = "''value''" and fieldSignature = None
      and t = 90
      and ?res4.0 = "(Inl (ForeignFault 90), \<lparr>heap = [], pending = nullptr, trace = [EFindClass
          ''no/such/Class'', EExceptionCheck, EExceptionOccurred, EExceptionDescribe,
          EExceptionClear]\<rparr>)"]
  note H = failures_are_foreign_faults [where rt = demo_rt and T = Tjstring and env = demo_env
      and className = "''java/lang/String''" and fieldName = "''missing''" and fieldSignature = None
      and T_signature = "''Ljava/lang/String;''" and cls = 10 and t = 92
      and ?env1.0 = "\<lparr>heap = [], pending = nullptr, trace = [EFindClass ''java/lang/String'',
          EExceptionCheck]\<rparr>"
      and ?res4.0 = "(Inl (ForeignFault 92), \<lparr>heap = [], pending = nullptr, trace = [EFindClass
          ''java/lang/String'', EExceptionCheck, EGetStaticFieldID 10 ''missing''
          ''Ljava/lang/String;'', EExceptionCheck, EExceptionOccurred, EExceptionDescribe,
          EExceptionClear, EDeleteLocalRef 10]\<rparr>)"]
  have n0: "fst (NewObject demo_rt demo_env ''no/such/Class'' ''()V'' []) = Inl (ForeignFault 90)"
    using B c1 by simp
  have n2: "fst (NewObject no_members_rt demo_env ''java/lang/String'' ''()V'' []) = Inl (ForeignFault 91)"
    using D c3 n1 by simp
  have k: "is_fault (ForeignFault 91)" "is_fault (ForeignFault 90)" "is_fault (ForeignFault 92)"
    using A B F m1 s1 g1 by (simp_all add: fails_with_fault_only_def)
  from C H G s2 c2 s3 f1 f2 f3 g2 g3 c1 have
    "fst (Inl (ForeignFault 91), \<lparr>heap = [], pending = nullptr, trace = [EFindClass
      ''java/lang/String'', EExceptionCheck, EGetStaticMethodID 10 ''missing'' ''()I'',
      EExceptionCheck, EExceptionOccurred, EExceptionDescribe, EExceptionClear, EDeleteLocalRef
      10]\<rparr>) = Inl (ForeignFault 91)"
    "fst (Inl (ForeignFault 92), \<lparr>heap = [], pending = nullptr, trace = [EFindClass
      ''java/lang/String'', EExceptionCheck, EGetStaticFieldID 10 ''missing''
      ''Ljava/lang/String;'', EExceptionCheck, EExceptionOccurred, EExceptionDescribe,
      EExceptionClear, EDeleteLocalRef 10]\<rparr>) = Inl (ForeignFault 92)"
    by simp_all
  with m1 m2 s1 c1 s2 c2 s3 c3 n1 g1 g2 g3 f1 f2 f3 n0 n2 k show ?thesis
    by simp
qed

section \<open>Call sites without the check\<close>

text \<open>
  C3 does not hold of the code. \<^verbatim>\<open>StringToJString\<close> returns what \<^verbatim>\<open>NewStringUTF\<close> returned
  and never asks for a pending exception: on a runtime that cannot construct the string it
  returns a null handle in the ordinary way and leaves the exception (here 94) pending. The
  string overloads of \<^verbatim>\<open>setJValue\<close> do the same, so \<^verbatim>\<open>CallMethod\<close> with a string
  argument goes on to \<^verbatim>\<open>CallIntMethodA\<close> with the exception pending, and only the check
  after that call finds it.
\<close>

theorem StringToJString_leaves_fault_unchecked:
  "StringToJString demo_rt full_env ''a'' =
     (nullptr, full_env\<lparr>pending := 94, trace := [ENewStringUTF ''a'']\<rparr>)
   \<and> trace (snd (StringToJString rt env str)) = trace env @ [ENewStringUTF (cstring str)]
   \<and> pending (snd (StringToJString rt env str)) =
       snd (snd (rt (ENewStringUTF (cstring str)) (heap env) (pending env)))
   \<and> map_option (\<lambda>res. trace (snd res))
        (CallMethod demo_rt Tjint full_env 1 ''length'' ''(Ljava/lang/String;)I'' [Astring ''a'']) =
       Some [EGetObjectClass 1, EGetMethodID 10 ''length'' ''(Ljava/lang/String;)I'',
             EExceptionCheck, ENewStringUTF ''a'', ECallMethodA FInt 1 20 [Some (JL nullptr)],
             EExceptionCheck, EExceptionOccurred, EExceptionDescribe, EExceptionClear,
             EDeleteLocalRef 10]"
  by (simp add: StringToJString_def NewStringUTF_def foreign_ref_def foreign_def full_env_def
      demo_simps cstring_def case_prod_beta CallMethod_def CallMethod_args_def
      JNITypeTraits_CallMethod_def CallMethod_body_def GetMethodID_def checked_eq
      ArgsToJValues_def foreign_val_def ScopedLocalRef_dtor_def ScopedLocalRef_ctor_def)

text \<open>
  C1 does not hold of the code, by the same omission. The bridge acts only where the check
  is made. \<^verbatim>\<open>StringToJString\<close> is a wrapper operation whose foreign call leaves the fault 94
  pending: the operation does not fail, the fault object is not retrieved and the pending
  exception is not cleared. The next, unrelated call on the same environment, a
  \<^verbatim>\<open>CallMethod\<close> of \<^verbatim>\<open>length\<close>, then fails with the earlier fault 94 at its method
  lookup, before the method is called; on the environment without the earlier fault the
  same call returns 3.
\<close>

theorem stale_fault_reaches_next_call:
  "StringToJString demo_rt full_env ''a'' =
     (nullptr, full_env\<lparr>pending := 94, trace := [ENewStringUTF ''a'']\<rparr>)
   \<and> CallMethod demo_rt Tjint (snd (StringToJString demo_rt full_env ''a'')) 1 ''length'' ''()I'' [] =
       Some (Inl (JNIException ''JNI exception occurred'' 94),
             \<lparr>heap = [''x'', ''y''], pending = nullptr,
              trace = [ENewStringUTF ''a'', EGetObjectClass 1, EGetMethodID 10 ''length'' ''()I'',
                       EExceptionCheck, EExceptionOccurred, EExceptionDescribe, EExceptionClear,
                       EDeleteLocalRef 10]\<rparr>)
   \<and> CallMethod demo_rt Tjint full_env 1 ''length'' ''()I'' [] =
       Some (Inr (RVal (JI 3)),
             \<lparr>heap = [''x'', ''y''], pending = nullptr,
              trace = [EGetObjectClass 1, EGetMethodID 10 ''length'' ''()I'', EExceptionCheck,
                       ECallMethod FInt 1 20, EExceptionCheck, EDeleteLocalRef 10]\<rparr>)"
  by (simp add: StringToJString_def NewStringUTF_def foreign_ref_def foreign_def full_env_def
      demo_simps cstring_def CallMethod_def CallMethod_noargs_def CallMethod_body_def
      GetMethodID_def checked_eq foreign_val_def ScopedLocalRef_dtor_def ScopedLocalRef_ctor_def)

section \<open>The argument packer\<close>

lemma setJValue_eq:
  "setJValue rt (env, vals) k a =
     (snd (arg_value rt env a), vals[k := Some (fst (arg_value rt env a))])"
proof (cases a)
  case (Acstr p)
  then show ?thesis
    by (cases p) (simp_all add: NewStringUTF_def foreign_ref_def case_prod_beta)
qed (simp_all add: StringToJString_def NewStringUTF_def foreign_ref_def case_prod_beta)

lemma arg_values_length: "length (fst (arg_values rt env args)) = length args"
  by (induction args arbitrary: env) (simp_all add: case_prod_beta)

lemma convertArgs_eq:
  "k + length rest \<le> length vals \<Longrightarrow>
   convertArgs rt (env, vals) k rest =
     (snd (arg_values rt env rest),
      take k vals @ map Some (fst (arg_values rt env rest)) @ drop (k + length rest) vals)"
proof (induction rest arbitrary: env vals k)
  case Nil
  then show ?case by simp
next
  case (Cons a rest)
  let ?v = "fst (arg_value rt env a)"
  let ?env1 = "snd (arg_value rt env a)"
  let ?vals = "vals[k := Some ?v]"
  from Cons.prems have k: "k < length vals" and le: "Suc k + length rest \<le> length ?vals"
    by simp_all
  have "convertArgs rt (env, vals) k (a # rest) = convertArgs rt (?env1, ?vals) (Suc k) rest"
    by (simp add: setJValue_eq)
  also have "\<dots> =
     (snd (arg_values rt ?env1 rest),
      take (Suc k) ?vals @ map Some (fst (arg_values rt ?env1 rest))
        @ drop (Suc k + length rest) ?vals)"
    by (rule Cons.IH [OF le])
  also have "take (Suc k) ?vals = take k vals @ [Some ?v]"
    using k by (simp add: take_Suc_conv_app_nth)
  also have "drop (Suc k + length rest) ?vals = drop (k + length (a # rest)) vals"
    by simp
  finally show ?case
    by (simp add: case_prod_beta)
qed

lemma ArgsToJValues_eq:
  "ArgsToJValues rt env args =
     ((if args = [] then [None] else map Some (fst (arg_values rt env args))),
      snd (arg_values rt env args))"
  by (cases "args = []") (simp_all add: ArgsToJValues_def convertArgs_eq arg_values_length)

lemma arg_values_nth:
  "i < length args \<Longrightarrow>
   fst (arg_values rt env args) ! i =
     fst (arg_value rt (snd (arg_values rt env (take i args))) (args ! i))"
proof (induction args arbitrary: env i)
  case Nil
  then show ?case by simp
next
  case (Cons a args)
  then show ?case
    by (cases i) (simp_all add: case_prod_beta)
qed

lemma arg_value_trace:
  "trace (snd (arg_value rt env a)) = trace env @ arg_calls a"
proof (cases a)
  case (Acstr p)
  then show ?thesis
    by (cases p) (simp_all add: case_prod_beta foreign_sel)
qed (simp_all add: case_prod_beta foreign_sel)

lemma arg_values_trace:
  "trace (snd (arg_values rt env args)) = trace env @ concat (map arg_calls args)"
  by (induction args arbitrary: env) (simp_all add: case_prod_beta arg_value_trace)

text \<open>
  C5. For a list of \<open>N\<close> arguments the array that \<^verbatim>\<open>ArgsToJValues\<close> hands out has
  \<open>max N 1\<close> cells, and for every \<open>i < N\<close> cell \<open>i\<close> holds the value that argument \<open>i\<close> is
  converted to by the packing policy, converted after the arguments before it. With no
  argument the one cell is left unwritten.
\<close>

theorem ArgsToJValues_cells:
  "length (fst (ArgsToJValues rt env args)) = max (length args) 1
   \<and> (i < length args \<longrightarrow>
        fst (ArgsToJValues rt env args) ! i =
          Some (fst (arg_value rt (snd (arg_values rt env (take i args))) (args ! i))))
   \<and> (args = [] \<longrightarrow> ArgsToJValues rt env args = ([None], env))"
proof -
  have "max (length args) 1 = (if args = [] then 1 else length args)"
    by (cases args) simp_all
  then show ?thesis
    by (auto simp add: ArgsToJValues_eq arg_values_length arg_values_nth)
qed

theorem ArgsToJValues_cells_witness:
  "(2::nat) < length [Ajint 7, Astring ''hi'', Ajboolean 1, Ajobject 5]
   \<and> length (fst (ArgsToJValues demo_rt demo_env [Ajint 7, Astring ''hi'', Ajboolean 1, Ajobject 5])) = 4
   \<and> fst (ArgsToJValues demo_rt demo_env [Ajint 7, Astring ''hi'', Ajboolean 1, Ajobject 5]) ! 2
       = Some (JZ 1)
   \<and> fst (ArgsToJValues demo_rt demo_env [Ajint 7, Astring ''hi'', Ajboolean 1, Ajobject 5])
       = [Some (JI 7), Some (JL 100), Some (JZ 1), Some (JL 5)]
   \<and> ArgsToJValues demo_rt demo_env [] = ([None], demo_env)"
proof -
  have "fst (ArgsToJValues demo_rt demo_env [Ajint 7, Astring ''hi'', Ajboolean 1, Ajobject 5])
       = [Some (JI 7), Some (JL 100), Some (JZ 1), Some (JL 5)]"
    by (simp add: ArgsToJValues_def StringToJString_def NewStringUTF_def foreign_ref_def
        foreign_def demo_env_def demo_simps cstring_def)
  with ArgsToJValues_cells [of demo_rt demo_env "[Ajint 7, Astring ''hi'', Ajboolean 1, Ajobject 5]" 2]
    ArgsToJValues_cells [of demo_rt demo_env "[]" 0]
  show ?thesis by simp
qed

text \<open>
  C10. A \<^verbatim>\<open>const char*\<close> argument that is null is stored as the null reference, and packing
  it calls nothing: the calls that packing a list adds to the record are the
  \<^verbatim>\<open>NewStringUTF\<close> calls of its \<^verbatim>\<open>std::string\<close> arguments and of its C strings that are not
  null, in order, each on the bytes of that string.
\<close>

theorem null_cstring_argument:
  "setJValue rt (env, vals) k (Acstr None) = (env, vals[k := Some (JL nullptr)])
   \<and> (i < length args \<and> args ! i = Acstr None \<longrightarrow>
        fst (ArgsToJValues rt env args) ! i = Some (JL nullptr))
   \<and> trace (snd (ArgsToJValues rt env args)) = trace env @ concat (map arg_calls args)
   \<and> arg_calls (Acstr None) = []
   \<and> ArgsToJValues rt env (replicate n (Acstr None)) =
       (replicate (max n 1) (if n = 0 then None else Some (JL nullptr)), env)"
proof -
  have cell: "fst (ArgsToJValues rt env args) ! i = Some (JL nullptr)"
    if "i < length args" and "args ! i = Acstr None"
  proof -
    from that(1) have "args \<noteq> []" by auto
    with that show ?thesis
      by (simp add: ArgsToJValues_eq arg_values_length arg_values_nth)
  qed
  have calls: "trace (snd (ArgsToJValues rt env args)) = trace env @ concat (map arg_calls args)"
    by (simp add: ArgsToJValues_eq arg_values_trace)
  have "arg_values rt env (replicate m (Acstr None)) = (replicate m (JL nullptr), env)" for m
    by (induction m) simp_all
  from this [of n] have all_null: "ArgsToJValues rt env (replicate n (Acstr None)) =
       (replicate (max n 1) (if n = 0 then None else Some (JL nullptr)), env)"
    by (cases "n = 0") (simp_all add: ArgsToJValues_eq max_def)
  from cell calls all_null show ?thesis
    by simp
qed

theorem null_cstring_argument_witness:
  "(1::nat) < length [Acstr (Some ''hi''), Acstr None, Ajint 3]
   \<and> [Acstr (Some ''hi''), Acstr None, Ajint 3] ! 1 = Acstr None
   \<and> fst (ArgsToJValues demo_rt demo_env [Acstr (Some ''hi''), Acstr None, Ajint 3]) ! 1 =
       Some (JL nullptr)
   \<and> trace (snd (ArgsToJValues demo_rt demo_env [Acstr (Some ''hi''), Acstr None, Ajint 3])) =
       [ENewStringUTF ''hi'']"
  using null_cstring_argument [of demo_rt demo_env _ _ 1 "[Acstr (Some ''hi''), Acstr None, Ajint 3]"]
  by (simp add: demo_env_def cstring_def)

section \<open>Calls without arguments\<close>

lemma dtor_fst: "fst (case res of (r, env3) \<Rightarrow> (r, ScopedLocalRef_dtor rt g env3)) = fst res"
  by (simp add: case_prod_beta)

lemma dtor_heap_pending:
  "heap env = heap env' \<Longrightarrow> pending env = pending env' \<Longrightarrow>
   heap (ScopedLocalRef_dtor rt g env) = heap (ScopedLocalRef_dtor rt g env')
   \<and> pending (ScopedLocalRef_dtor rt g env) = pending (ScopedLocalRef_dtor rt g env')"
  by (simp add: ScopedLocalRef_dtor_def foreign_sel)

lemma observable_dtor:
  "observable res = observable res' \<Longrightarrow>
   observable (case res of (r, env3) \<Rightarrow> (r, ScopedLocalRef_dtor rt g env3)) =
   observable (case res' of (r, env3) \<Rightarrow> (r, ScopedLocalRef_dtor rt g env3))"
  using dtor_heap_pending [of "snd res" "snd res'" rt g]
  by (simp add: observable_def case_prod_beta)

lemma observable_checked:
  "rt c (heap env) (pending env) = rt c' (heap env) (pending env) \<Longrightarrow>
   observable (checked (foreign_val rt fam c) env) = observable (checked (foreign_val rt fam c') env)"
  by (simp add: observable_def checked_eq foreign_val_def case_prod_beta foreign_sel)

lemma CallMethod_body_observable:
  assumes "\<And>mid env2.
      GetMethodID rt (snd (foreign_ref rt (EGetObjectClass obj) env))
        (fst (foreign_ref rt (EGetObjectClass obj) env)) methodName signature = (Inr mid, env2) \<Longrightarrow>
      observable (call obj mid env2) = observable (call' obj mid env2)"
  shows "observable (CallMethod_body rt env obj methodName signature call) =
         observable (CallMethod_body rt env obj methodName signature call')"
proof -
  obtain cls env1 where 1: "foreign_ref rt (EGetObjectClass obj) env = (cls, env1)"
    by (cases "foreign_ref rt (EGetObjectClass obj) env")
  obtain r env2 where 2: "GetMethodID rt env1 cls methodName signature = (r, env2)"
    by (cases "GetMethodID rt env1 cls methodName signature")
  show ?thesis
  proof (cases r)
    case (Inl e)
    with 1 2 show ?thesis by (simp add: CallMethod_body_def)
  next
    case (Inr mid)
    with 1 2 assms [of mid env2] have "observable (call obj mid env2) = observable (call' obj mid env2)"
      by simp
    from observable_dtor [OF this] 1 2 Inr show ?thesis
      by (simp add: CallMethod_body_def)
  qed
qed

lemma CallStaticMethod_body_observable:
  assumes "\<And>cls env1 mid env2.
      FindClass rt env className = (Inr cls, env1) \<Longrightarrow>
      GetStaticMethodID rt env1 cls methodName signature = (Inr mid, env2) \<Longrightarrow>
      observable (call cls mid env2) = observable (call' cls mid env2)"
  shows "observable (CallStaticMethod_body rt env className methodName signature call) =
         observable (CallStaticMethod_body rt env className methodName signature call')"
proof -
  obtain r1 env1 where 1: "FindClass rt env className = (r1, env1)"
    by (cases "FindClass rt env className")
  show ?thesis
  proof (cases r1)
    case (Inl e)
    with 1 show ?thesis by (simp add: CallStaticMethod_body_def)
  next
    case cls: (Inr cls)
    obtain r env2 where 2: "GetStaticMethodID rt env1 cls methodName signature = (r, env2)"
      by (cases "GetStaticMethodID rt env1 cls methodName signature")
    show ?thesis
    proof (cases r)
      case (Inl e)
      with 1 cls 2 show ?thesis by (simp add: CallStaticMethod_body_def)
    next
      case (Inr mid)
      with 1 cls 2 assms [of cls env1 mid env2]
      have "observable (call cls mid env2) = observable (call' cls mid env2)"
        by simp
      from observable_dtor [OF this] 1 cls 2 Inr show ?thesis
        by (simp add: CallStaticMethod_body_def)
    qed
  qed
qed

lemma CallMethod_noargs_table:
  "JNITypeTraits RetType = Some tr \<Longrightarrow>
   CallMethod_noargs rt RetType =
     Some (\<lambda>obj mid. checked (foreign_val rt (CallMethod_of tr) (ECallMethod (CallMethod_of tr) obj mid)))"
  by (cases RetType) (auto simp: CallMethod_noargs_def)

lemma CallStaticMethod_noargs_table:
  "JNITypeTraits RetType = Some tr \<Longrightarrow>
   CallStaticMethod_noargs rt RetType =
     Some (\<lambda>cls mid. checked (foreign_val rt (CallStaticMethod_of tr)
                         (ECallStaticMethod (CallStaticMethod_of tr) cls mid)))"
  by (cases RetType) (auto simp: CallStaticMethod_noargs_def)

lemma CallMethod_args_Nil:
  "JNITypeTraits RetType = Some tr \<Longrightarrow>
   CallMethod_args rt RetType [] =
     Some (\<lambda>obj mid. checked (foreign_val rt (CallMethod_of tr)
                         (ECallMethodA (CallMethod_of tr) obj mid [None])))"
  by (simp add: CallMethod_args_def JNITypeTraits_CallMethod_def ArgsToJValues_def)

lemma CallStaticMethod_args_Nil:
  "JNITypeTraits RetType = Some tr \<Longrightarrow>
   CallStaticMethod_args rt RetType [] =
     Some (\<lambda>cls mid. checked (foreign_val rt (CallStaticMethod_of tr)
                         (ECallStaticMethodA (CallStaticMethod_of tr) cls mid [None])))"
  by (simp add: CallStaticMethod_args_def JNITypeTraits_CallStaticMethod_def ArgsToJValues_def)

text \<open>The calls that take an array, among those recorded.\<close>

lemma arrays_foreign:
  "filter takes_array (trace (snd (foreign rt c env))) =
     filter takes_array (trace env) @ (if takes_array c then [c] else [])"
  by (simp add: foreign_sel)

lemma arrays_checked:
  "filter takes_array (trace (snd (checked f env))) = filter takes_array (trace (snd (f env)))"
  by (simp add: checked_eq)

lemma arrays_dtor:
  "filter takes_array (trace (ScopedLocalRef_dtor rt g env)) = filter takes_array (trace env)"
  by (simp add: ScopedLocalRef_dtor_def foreign_sel)

lemma arrays_CallMethod_body:
  assumes "\<And>obj mid env. filter takes_array (trace (snd (call obj mid env))) = filter takes_array (trace env)"
  shows "filter takes_array (trace (snd (CallMethod_body rt env obj methodName signature call))) =
         filter takes_array (trace env)"
proof -
  obtain cls env1 where 1: "foreign_ref rt (EGetObjectClass obj) env = (cls, env1)"
    by (cases "foreign_ref rt (EGetObjectClass obj) env")
  then have e1: "filter takes_array (trace env1) = filter takes_array (trace env)"
    using arrays_foreign [of rt "EGetObjectClass obj" env]
    by (simp add: foreign_ref_def case_prod_beta)
  obtain r env2 where 2: "GetMethodID rt env1 cls methodName signature = (r, env2)"
    by (cases "GetMethodID rt env1 cls methodName signature")
  then have e2: "filter takes_array (trace env2) = filter takes_array (trace env1)"
    using arrays_checked [of "foreign_ref rt (EGetMethodID cls methodName signature)" env1]
      arrays_foreign [of rt "EGetMethodID cls methodName signature" env1]
    by (simp add: GetMethodID_def foreign_ref_def case_prod_beta)
  show ?thesis
    using 1 2 e1 e2 assms
    by (cases r) (simp_all add: CallMethod_body_def arrays_dtor case_prod_beta)
qed

lemma arrays_CallStaticMethod_body:
  assumes "\<And>cls mid env. filter takes_array (trace (snd (call cls mid env))) = filter takes_array (trace env)"
  shows "filter takes_array (trace (snd (CallStaticMethod_body rt env className methodName signature call))) =
         filter takes_array (trace env)"
proof -
  obtain r1 env1 where 1: "FindClass rt env className = (r1, env1)"
    by (cases "FindClass rt env className")
  then have e1: "filter takes_array (trace env1) = filter takes_array (trace env)"
    using arrays_checked [of "foreign_ref rt (EFindClass className)" env]
      arrays_foreign [of rt "EFindClass className" env]
    by (simp add: FindClass_def foreign_ref_def case_prod_beta)
  show ?thesis
  proof (cases r1)
    case (Inl e)
    with 1 e1 show ?thesis by (simp add: CallStaticMethod_body_def)
  next
    case cls: (Inr cls)
    obtain r env2 where 2: "GetStaticMethodID rt env1 cls methodName signature = (r, env2)"
      by (cases "GetStaticMethodID rt env1 cls methodName signature")
    then have e2: "filter takes_array (trace env2) = filter takes_array (trace env1)"
      using arrays_checked [of "foreign_ref rt (EGetStaticMethodID cls methodName signature)" env1]
        arrays_foreign [of rt "EGetStaticMethodID cls methodName signature" env1]
      by (simp add: GetStaticMethodID_def foreign_ref_def case_prod_beta)
    show ?thesis
      using 1 cls 2 e1 e2 assms
      by (cases r) (simp_all add: CallStaticMethod_body_def arrays_dtor case_prod_beta)
  qed
qed

lemma arrays_direct:
  "\<not> takes_array c \<Longrightarrow>
   filter takes_array (trace (snd (checked (foreign_val rt fam c) env))) = filter takes_array (trace env)"
  by (simp add: arrays_checked foreign_val_def case_prod_beta foreign_sel)

lemma checked_val_outcome:
  "fst (checked (foreign_val rt fam c) env) = call_outcome fam (rt c (heap env) (pending env))"
  "trace (snd (checked (foreign_val rt fam c) env)) =
     trace env @ [c] @ bridge_calls (snd (snd (rt c (heap env) (pending env))))"
  by (simp_all add: checked_eq foreign_val_def case_prod_beta foreign_sel call_outcome_def
      bridge_calls_def)

lemma dtor_trace:
  "trace (ScopedLocalRef_dtor rt (ScopedLocalRef_ctor cls) env) = trace env @ guard_calls cls"
  by (simp add: ScopedLocalRef_dtor_def ScopedLocalRef_ctor_def guard_calls_def foreign_sel)

lemma lookup_success_trace:
  "checked (foreign_ref rt c) env = (Inr x, env') \<Longrightarrow>
   trace env' = trace env @ [c, EExceptionCheck]"
  by (auto simp: checked_eq foreign_ref_def case_prod_beta foreign_sel split: if_splits)

lemma CallMethod_body_success:
  assumes "foreign_ref rt (EGetObjectClass obj) env = (cls, env1)"
    and "GetMethodID rt env1 cls methodName signature = (Inr mid, env2)"
  shows "fst (CallMethod_body rt env obj methodName signature
                (\<lambda>obj mid. checked (foreign_val rt fam (c obj mid)))) =
           call_outcome fam (rt (c obj mid) (heap env2) (pending env2))"
    and "trace (snd (CallMethod_body rt env obj methodName signature
                (\<lambda>obj mid. checked (foreign_val rt fam (c obj mid))))) =
           trace env @ [EGetObjectClass obj, EGetMethodID cls methodName signature, EExceptionCheck,
                        c obj mid]
             @ bridge_calls (snd (snd (rt (c obj mid) (heap env2) (pending env2))))
             @ guard_calls cls"
proof -
  from assms(1) have 1: "trace env1 = trace env @ [EGetObjectClass obj]"
    by (auto simp: foreign_ref_def case_prod_beta foreign_sel)
  from assms(2) have 2: "trace env2 = trace env1 @ [EGetMethodID cls methodName signature, EExceptionCheck]"
    unfolding GetMethodID_def by (rule lookup_success_trace)
  from assms show "fst (CallMethod_body rt env obj methodName signature
                (\<lambda>obj mid. checked (foreign_val rt fam (c obj mid)))) =
           call_outcome fam (rt (c obj mid) (heap env2) (pending env2))"
    by (simp add: CallMethod_body_def case_prod_beta checked_val_outcome)
  from assms 1 2 show "trace (snd (CallMethod_body rt env obj methodName signature
                (\<lambda>obj mid. checked (foreign_val rt fam (c obj mid))))) =
           trace env @ [EGetObjectClass obj, EGetMethodID cls methodName signature, EExceptionCheck,
                        c obj mid]
             @ bridge_calls (snd (snd (rt (c obj mid) (heap env2) (pending env2))))
             @ guard_calls cls"
    by (simp add: CallMethod_body_def case_prod_beta checked_val_outcome dtor_trace)
qed

lemma CallStaticMethod_body_success:
  assumes "FindClass rt env className = (Inr cls, env1)"
    and "GetStaticMethodID rt env1 cls methodName signature = (Inr mid, env2)"
  shows "fst (CallStaticMethod_body rt env className methodName signature
                (\<lambda>cls mid. checked (foreign_val rt fam (c cls mid)))) =
           call_outcome fam (rt (c cls mid) (heap env2) (pending env2))"
    and "trace (snd (CallStaticMethod_body rt env className methodName signature
                (\<lambda>cls mid. checked (foreign_val rt fam (c cls mid))))) =
           trace env @ [EFindClass className, EExceptionCheck,
                        EGetStaticMethodID cls methodName signature, EExceptionCheck, c cls mid]
             @ bridge_calls (snd (snd (rt (c cls mid) (heap env2) (pending env2))))
             @ guard_calls cls"
proof -
  from assms(1) have 1: "trace env1 = trace env @ [EFindClass className, EExceptionCheck]"
    unfolding FindClass_def by (rule lookup_success_trace)
  from assms(2) have 2: "trace env2 = trace env1 @ [EGetStaticMethodID cls methodName signature, EExceptionCheck]"
    unfolding GetStaticMethodID_def by (rule lookup_success_trace)
  from assms show "fst (CallStaticMethod_body rt env className methodName signature
                (\<lambda>cls mid. checked (foreign_val rt fam (c cls mid)))) =
           call_outcome fam (rt (c cls mid) (heap env2) (pending env2))"
    by (simp add: CallStaticMethod_body_def case_prod_beta checked_val_outcome)
  from assms 1 2 show "trace (snd (CallStaticMethod_body rt env className methodName signature
                (\<lambda>cls mid. checked (foreign_val rt fam (c cls mid))))) =
           trace env @ [EFindClass className, EExceptionCheck,
                        EGetStaticMethodID cls methodName signature, EExceptionCheck, c cls mid]
             @ bridge_calls (snd (snd (rt (c cls mid) (heap env2) (pending env2))))
             @ guard_calls cls"
    by (simp add: CallStaticMethod_body_def case_prod_beta checked_val_outcome dtor_trace)
qed

text \<open>
  C8. Let \<^verbatim>\<open>RetType\<close> have an entry in the dispatch table (a supported type). A call of
  \<^verbatim>\<open>CallMethod\<close> or \<^verbatim>\<open>CallStaticMethod\<close> without arguments, once the method identifier
  is found, calls the direct primitive \<^verbatim>\<open>Call<Type>Method\<close> of the family of that entry on
  that identifier: the calls it makes are the lookups, this primitive, the check and the
  release of the class, and its outcome is the checked answer of this primitive. No
  primitive that takes an argument array is called. The call dispatched through the table
  entry makes the same calls with the array primitive, given the placeholder array, in the
  place of the direct one. When the runtime answers the array primitive as it answers the
  direct primitive for the method identifier found (the method takes no parameter, so no
  cell is read), the caller observes the same from both: the same result or exception, heap
  and pending state.
\<close>

theorem zero_argument_call_is_direct:
  "JNITypeTraits RetType = Some tr \<longrightarrow>
     CallMethod_noargs rt RetType =
       Some (\<lambda>obj mid. checked (foreign_val rt (CallMethod_of tr) (ECallMethod (CallMethod_of tr) obj mid)))
   \<and> CallStaticMethod_noargs rt RetType =
       Some (\<lambda>cls mid. checked (foreign_val rt (CallStaticMethod_of tr)
                           (ECallStaticMethod (CallStaticMethod_of tr) cls mid)))
   \<and> map_option (\<lambda>res. filter takes_array (trace (snd res)))
        (CallMethod rt RetType env obj methodName signature []) =
       Some (filter takes_array (trace env))
   \<and> map_option (\<lambda>res. filter takes_array (trace (snd res)))
        (CallStaticMethod rt RetType env className methodName signature []) =
       Some (filter takes_array (trace env))
   \<and> ((\<forall>mid env2.
          GetMethodID rt (snd (foreign_ref rt (EGetObjectClass obj) env))
            (fst (foreign_ref rt (EGetObjectClass obj) env)) methodName signature = (Inr mid, env2) \<longrightarrow>
          rt (ECallMethodA (CallMethod_of tr) obj mid [None]) (heap env2) (pending env2) =
          rt (ECallMethod (CallMethod_of tr) obj mid) (heap env2) (pending env2)) \<longrightarrow>
        map_option observable (CallMethod rt RetType env obj methodName signature []) =
        map_option observable (CallMethod_dispatched rt RetType env obj methodName signature []))
   \<and> ((\<forall>cls env1 mid env2.
          FindClass rt env className = (Inr cls, env1) \<and>
          GetStaticMethodID rt env1 cls methodName signature = (Inr mid, env2) \<longrightarrow>
          rt (ECallStaticMethodA (CallStaticMethod_of tr) cls mid [None]) (heap env2) (pending env2) =
          rt (ECallStaticMethod (CallStaticMethod_of tr) cls mid) (heap env2) (pending env2)) \<longrightarrow>
        map_option observable (CallStaticMethod rt RetType env className methodName signature []) =
        map_option observable (CallStaticMethod_dispatched rt RetType env className methodName signature []))
   \<and> (foreign_ref rt (EGetObjectClass obj) env = (cls, env1)
        \<and> GetMethodID rt env1 cls methodName signature = (Inr mid, env2) \<longrightarrow>
        map_option fst (CallMethod rt RetType env obj methodName signature []) =
          Some (call_outcome (CallMethod_of tr)
                  (rt (ECallMethod (CallMethod_of tr) obj mid) (heap env2) (pending env2)))
      \<and> map_option (\<lambda>res. trace (snd res)) (CallMethod rt RetType env obj methodName signature []) =
          Some (trace env
                @ [EGetObjectClass obj, EGetMethodID cls methodName signature, EExceptionCheck,
                   ECallMethod (CallMethod_of tr) obj mid]
                @ bridge_calls (snd (snd (rt (ECallMethod (CallMethod_of tr) obj mid)
                                            (heap env2) (pending env2))))
                @ guard_calls cls)
      \<and> map_option fst (CallMethod_dispatched rt RetType env obj methodName signature []) =
          Some (call_outcome (CallMethod_of tr)
                  (rt (ECallMethodA (CallMethod_of tr) obj mid [None]) (heap env2) (pending env2)))
      \<and> map_option (\<lambda>res. trace (snd res))
           (CallMethod_dispatched rt RetType env obj methodName signature []) =
          Some (trace env
                @ [EGetObjectClass obj, EGetMethodID cls methodName signature, EExceptionCheck,
                   ECallMethodA (CallMethod_of tr) obj mid [None]]
                @ bridge_calls (snd (snd (rt (ECallMethodA (CallMethod_of tr) obj mid [None])
                                            (heap env2) (pending env2))))
                @ guard_calls cls))
   \<and> (FindClass rt env className = (Inr scls, senv1)
        \<and> GetStaticMethodID rt senv1 scls methodName signature = (Inr smid, senv2) \<longrightarrow>
        map_option fst (CallStaticMethod rt RetType env className methodName signature []) =
          Some (call_outcome (CallStaticMethod_of tr)
                  (rt (ECallStaticMethod (CallStaticMethod_of tr) scls smid) (heap senv2) (pending senv2)))
      \<and> map_option (\<lambda>res. trace (snd res))
           (CallStaticMethod rt RetType env className methodName signature []) =
          Some (trace env
                @ [EFindClass className, EExceptionCheck,
                   EGetStaticMethodID scls methodName signature, EExceptionCheck,
                   ECallStaticMethod (CallStaticMethod_of tr) scls smid]
                @ bridge_calls (snd (snd (rt (ECallStaticMethod (CallStaticMethod_of tr) scls smid)
                                            (heap senv2) (pending senv2))))
                @ guard_calls scls)
      \<and> map_option fst (CallStaticMethod_dispatched rt RetType env className methodName signature []) =
          Some (call_outcome (CallStaticMethod_of tr)
                  (rt (ECallStaticMethodA (CallStaticMethod_of tr) scls smid [None])
                     (heap senv2) (pending senv2)))
      \<and> map_option (\<lambda>res. trace (snd res))
           (CallStaticMethod_dispatched rt RetType env className methodName signature []) =
          Some (trace env
                @ [EFindClass className, EExceptionCheck,
                   EGetStaticMethodID scls methodName signature, EExceptionCheck,
                   ECallStaticMethodA (CallStaticMethod_of tr) scls smid [None]]
                @ bridge_calls (snd (snd (rt (ECallStaticMethodA (CallStaticMethod_of tr) scls smid [None])
                                            (heap senv2) (pending senv2))))
                @ guard_calls scls))"
  (is "_ \<longrightarrow> ?direct \<and> ?static_direct \<and> ?no_array \<and> ?static_no_array \<and> (?agree \<longrightarrow> ?same)
        \<and> (?static_agree \<longrightarrow> ?static_same) \<and> (?found \<longrightarrow> ?run) \<and> (?static_found \<longrightarrow> ?static_run)")
proof
  assume tr: "JNITypeTraits RetType = Some tr"
  note direct = CallMethod_noargs_table [OF tr, of rt] CallStaticMethod_noargs_table [OF tr, of rt]
  note table = CallMethod_args_Nil [OF tr, of rt] CallStaticMethod_args_Nil [OF tr, of rt]
  have a1: "map_option (\<lambda>res. filter takes_array (trace (snd res)))
        (CallMethod rt RetType env obj methodName signature []) =
       Some (filter takes_array (trace env))"
    unfolding CallMethod_def direct
    by (simp add: arrays_CallMethod_body arrays_direct)
  have a2: "map_option (\<lambda>res. filter takes_array (trace (snd res)))
        (CallStaticMethod rt RetType env className methodName signature []) =
       Some (filter takes_array (trace env))"
    unfolding CallStaticMethod_def direct
    by (simp add: arrays_CallStaticMethod_body arrays_direct)
  have o1: "map_option observable (CallMethod rt RetType env obj methodName signature []) =
        map_option observable (CallMethod_dispatched rt RetType env obj methodName signature [])"
    if agree: "\<forall>mid env2.
          GetMethodID rt (snd (foreign_ref rt (EGetObjectClass obj) env))
            (fst (foreign_ref rt (EGetObjectClass obj) env)) methodName signature = (Inr mid, env2) \<longrightarrow>
          rt (ECallMethodA (CallMethod_of tr) obj mid [None]) (heap env2) (pending env2) =
          rt (ECallMethod (CallMethod_of tr) obj mid) (heap env2) (pending env2)"
  proof -
    have "observable (CallMethod_body rt env obj methodName signature
             (\<lambda>obj mid. checked (foreign_val rt (CallMethod_of tr) (ECallMethod (CallMethod_of tr) obj mid)))) =
          observable (CallMethod_body rt env obj methodName signature
             (\<lambda>obj mid. checked (foreign_val rt (CallMethod_of tr) (ECallMethodA (CallMethod_of tr) obj mid [None]))))"
      by (rule CallMethod_body_observable, rule observable_checked) (simp add: agree)
    then show ?thesis
      unfolding CallMethod_def CallMethod_dispatched_def direct table by simp
  qed
  have o2: "map_option observable (CallStaticMethod rt RetType env className methodName signature []) =
        map_option observable (CallStaticMethod_dispatched rt RetType env className methodName signature [])"
    if agree: "\<forall>cls env1 mid env2.
          FindClass rt env className = (Inr cls, env1) \<and>
          GetStaticMethodID rt env1 cls methodName signature = (Inr mid, env2) \<longrightarrow>
          rt (ECallStaticMethodA (CallStaticMethod_of tr) cls mid [None]) (heap env2) (pending env2) =
          rt (ECallStaticMethod (CallStaticMethod_of tr) cls mid) (heap env2) (pending env2)"
  proof -
    have "observable (CallStaticMethod_body rt env className methodName signature
             (\<lambda>cls mid. checked (foreign_val rt (CallStaticMethod_of tr)
                (ECallStaticMethod (CallStaticMethod_of tr) cls mid)))) =
          observable (CallStaticMethod_body rt env className methodName signature
             (\<lambda>cls mid. checked (foreign_val rt (CallStaticMethod_of tr)
                (ECallStaticMethodA (CallStaticMethod_of tr) cls mid [None]))))"
      by (rule CallStaticMethod_body_observable, rule observable_checked) (simp add: agree)
    then show ?thesis
      unfolding CallStaticMethod_def CallStaticMethod_dispatched_def direct table by simp
  qed
  have r1: ?run if found: ?found
  proof -
    from found have 1: "foreign_ref rt (EGetObjectClass obj) env = (cls, env1)"
      and 2: "GetMethodID rt env1 cls methodName signature = (Inr mid, env2)"
      by simp_all
    note CallMethod_body_success [OF 1 2, of "CallMethod_of tr" "ECallMethod (CallMethod_of tr)"]
      CallMethod_body_success [OF 1 2, of "CallMethod_of tr"
        "\<lambda>obj mid. ECallMethodA (CallMethod_of tr) obj mid [None]"]
    then show ?thesis
      unfolding CallMethod_def CallMethod_dispatched_def direct table by simp
  qed
  have r2: ?static_run if found: ?static_found
  proof -
    from found have 1: "FindClass rt env className = (Inr scls, senv1)"
      and 2: "GetStaticMethodID rt senv1 scls methodName signature = (Inr smid, senv2)"
      by simp_all
    note CallStaticMethod_body_success [OF 1 2, of "CallStaticMethod_of tr"
        "ECallStaticMethod (CallStaticMethod_of tr)"]
      CallStaticMethod_body_success [OF 1 2, of "CallStaticMethod_of tr"
        "\<lambda>cls mid. ECallStaticMethodA (CallStaticMethod_of tr) cls mid [None]"]
    then show ?thesis
      unfolding CallStaticMethod_def CallStaticMethod_dispatched_def direct table by simp
  qed
  show "?direct \<and> ?static_direct \<and> ?no_array \<and> ?static_no_array \<and> (?agree \<longrightarrow> ?same)
        \<and> (?static_agree \<longrightarrow> ?static_same) \<and> (?found \<longrightarrow> ?run) \<and> (?static_found \<longrightarrow> ?static_run)"
    by (rule conjI [OF direct(1)], rule conjI [OF direct(2)], rule conjI [OF a1],
        rule conjI [OF a2], rule conjI, rule impI, rule o1, assumption, rule conjI, rule impI,
        rule o2, assumption, rule conjI, rule impI, rule r1, assumption, rule impI, rule r2,
        assumption)
qed

theorem zero_argument_call_witness:
  "JNITypeTraits Tjint = Some \<lparr>signature_of = ''I'', GetField_of = Some FInt,
      GetStaticField_of = Some FInt, CallMethod_of = FInt, CallStaticMethod_of = FInt\<rparr>
   \<and> (\<forall>mid env2. demo_rt (ECallMethodA FInt 1 mid [None]) (heap env2) (pending env2) =
                  demo_rt (ECallMethod FInt 1 mid) (heap env2) (pending env2))
   \<and> (\<forall>cls mid env2. demo_rt (ECallStaticMethodA FInt cls mid [None]) (heap env2) (pending env2) =
                  demo_rt (ECallStaticMethod FInt cls mid) (heap env2) (pending env2))
   \<and> CallMethod demo_rt Tjint demo_env 1 ''length'' ''()I'' [] =
       Some (Inr (RVal (JI 3)),
             \<lparr>heap = [], pending = nullptr,
              trace = [EGetObjectClass 1, EGetMethodID 10 ''length'' ''()I'', EExceptionCheck,
                       ECallMethod FInt 1 20, EExceptionCheck, EDeleteLocalRef 10]\<rparr>)
   \<and> map_option observable (CallMethod_dispatched demo_rt Tjint demo_env 1 ''length'' ''()I'' []) =
       Some (Inr (RVal (JI 3)), [], nullptr)
   \<and> map_option observable
        (CallStaticMethod_dispatched demo_rt Tjint demo_env ''java/lang/String'' ''length'' ''()I'' []) =
       map_option observable
        (CallStaticMethod demo_rt Tjint demo_env ''java/lang/String'' ''length'' ''()I'' [])
   \<and> foreign_ref demo_rt (EGetObjectClass 1) demo_env = (10, \<lparr>heap = [], pending = nullptr, trace = [EGetObjectClass 1]\<rparr>)
   \<and> GetMethodID demo_rt \<lparr>heap = [], pending = nullptr, trace = [EGetObjectClass 1]\<rparr> 10 ''length'' ''()I'' =
       (Inr 20, \<lparr>heap = [], pending = nullptr, trace = [EGetObjectClass 1, EGetMethodID 10 ''length'' ''()I'', EExceptionCheck]\<rparr>)
   \<and> map_option (\<lambda>res. trace (snd res))
        (CallMethod_dispatched demo_rt Tjint demo_env 1 ''length'' ''()I'' []) =
       Some [EGetObjectClass 1, EGetMethodID 10 ''length'' ''()I'', EExceptionCheck,
             ECallMethodA FInt 1 20 [None], EExceptionCheck, EDeleteLocalRef 10]
   \<and> FindClass demo_rt demo_env ''java/lang/String'' = (Inr 10, \<lparr>heap = [], pending = nullptr, trace = [EFindClass ''java/lang/String'', EExceptionCheck]\<rparr>)
   \<and> GetStaticMethodID demo_rt \<lparr>heap = [], pending = nullptr, trace = [EFindClass ''java/lang/String'', EExceptionCheck]\<rparr> 10 ''length'' ''()I'' =
       (Inr 20, \<lparr>heap = [], pending = nullptr, trace = [EFindClass ''java/lang/String'', EExceptionCheck,
           EGetStaticMethodID 10 ''length'' ''()I'', EExceptionCheck]\<rparr>)
   \<and> map_option fst
        (CallStaticMethod demo_rt Tjint demo_env ''java/lang/String'' ''length'' ''()I'' []) =
       Some (Inr (RVal (JI 3)))
   \<and> map_option (\<lambda>res. trace (snd res))
        (CallStaticMethod demo_rt Tjint demo_env ''java/lang/String'' ''length'' ''()I'' []) =
       Some [EFindClass ''java/lang/String'', EExceptionCheck,
             EGetStaticMethodID 10 ''length'' ''()I'', EExceptionCheck,
             ECallStaticMethod FInt 10 20, EExceptionCheck, EDeleteLocalRef 10]"
proof -
  have 1: "CallMethod demo_rt Tjint demo_env 1 ''length'' ''()I'' [] =
       Some (Inr (RVal (JI 3)),
             \<lparr>heap = [], pending = nullptr,
              trace = [EGetObjectClass 1, EGetMethodID 10 ''length'' ''()I'', EExceptionCheck,
                       ECallMethod FInt 1 20, EExceptionCheck, EDeleteLocalRef 10]\<rparr>)"
    by (simp add: CallMethod_def CallMethod_noargs_def CallMethod_body_def GetMethodID_def
        checked_eq foreign_ref_def foreign_val_def foreign_def demo_simps demo_env_def
        ScopedLocalRef_dtor_def ScopedLocalRef_ctor_def)
  have 2: "\<forall>mid env2. demo_rt (ECallMethodA FInt 1 mid [None]) (heap env2) (pending env2) =
           demo_rt (ECallMethod FInt 1 mid) (heap env2) (pending env2)"
    by (simp add: demo_simps)
  have 3: "\<forall>cls mid env2. demo_rt (ECallStaticMethodA FInt cls mid [None]) (heap env2) (pending env2) =
           demo_rt (ECallStaticMethod FInt cls mid) (heap env2) (pending env2)"
    by (simp add: demo_simps)
  let ?tr = "\<lparr>signature_of = ''I'', GetField_of = Some FInt,
      GetStaticField_of = Some FInt, CallMethod_of = FInt, CallStaticMethod_of = FInt\<rparr>"
  have t: "JNITypeTraits Tjint = Some ?tr"
    by simp
  have h1: "\<forall>mid env2.
      GetMethodID demo_rt (snd (foreign_ref demo_rt (EGetObjectClass 1) demo_env))
        (fst (foreign_ref demo_rt (EGetObjectClass 1) demo_env)) ''length'' ''()I'' = (Inr mid, env2) \<longrightarrow>
      demo_rt (ECallMethodA (CallMethod_of ?tr) 1 mid [None]) (heap env2) (pending env2) =
      demo_rt (ECallMethod (CallMethod_of ?tr) 1 mid) (heap env2) (pending env2)"
    by (simp add: demo_simps)
  have h2: "\<forall>cls env1 mid env2.
      FindClass demo_rt demo_env ''java/lang/String'' = (Inr cls, env1) \<and>
      GetStaticMethodID demo_rt env1 cls ''length'' ''()I'' = (Inr mid, env2) \<longrightarrow>
      demo_rt (ECallStaticMethodA (CallStaticMethod_of ?tr) cls mid [None]) (heap env2) (pending env2) =
      demo_rt (ECallStaticMethod (CallStaticMethod_of ?tr) cls mid) (heap env2) (pending env2)"
    by (simp add: demo_simps)
  have oc: "foreign_ref demo_rt (EGetObjectClass 1) demo_env = (10, \<lparr>heap = [], pending = nullptr, trace = [EGetObjectClass 1]\<rparr>)"
    by (simp add: foreign_ref_def foreign_def demo_simps demo_env_def)
  have gm: "GetMethodID demo_rt \<lparr>heap = [], pending = nullptr, trace = [EGetObjectClass 1]\<rparr> 10 ''length'' ''()I'' =
       (Inr 20, \<lparr>heap = [], pending = nullptr, trace = [EGetObjectClass 1, EGetMethodID 10 ''length'' ''()I'', EExceptionCheck]\<rparr>)"
    by (simp add: GetMethodID_def checked_eq foreign_ref_def foreign_def demo_simps)
  have fc: "FindClass demo_rt demo_env ''java/lang/String'' = (Inr 10, \<lparr>heap = [], pending = nullptr, trace = [EFindClass ''java/lang/String'', EExceptionCheck]\<rparr>)"
    by (simp add: FindClass_def checked_eq foreign_ref_def foreign_def demo_simps demo_env_def)
  have gs: "GetStaticMethodID demo_rt \<lparr>heap = [], pending = nullptr, trace = [EFindClass ''java/lang/String'', EExceptionCheck]\<rparr> 10 ''length'' ''()I'' =
       (Inr 20, \<lparr>heap = [], pending = nullptr, trace = [EFindClass ''java/lang/String'', EExceptionCheck,
           EGetStaticMethodID 10 ''length'' ''()I'', EExceptionCheck]\<rparr>)"
    by (simp add: GetStaticMethodID_def checked_eq foreign_ref_def foreign_def demo_simps)
  note Z = zero_argument_call_is_direct [where RetType = Tjint and rt = demo_rt and tr = ?tr
      and env = demo_env and obj = 1 and methodName = "''length''" and signature = "''()I''"
      and className = "''java/lang/String''" and cls = 10 and mid = 20 and scls = 10 and smid = 20
      and ?env1.0 = "\<lparr>heap = [], pending = nullptr, trace = [EGetObjectClass 1]\<rparr>"
      and ?env2.0 = "\<lparr>heap = [], pending = nullptr, trace = [EGetObjectClass 1, EGetMethodID 10 ''length'' ''()I'', EExceptionCheck]\<rparr>"
      and ?senv1.0 = "\<lparr>heap = [], pending = nullptr, trace = [EFindClass ''java/lang/String'', EExceptionCheck]\<rparr>"
      and ?senv2.0 = "\<lparr>heap = [], pending = nullptr, trace = [EFindClass ''java/lang/String'', EExceptionCheck,
           EGetStaticMethodID 10 ''length'' ''()I'', EExceptionCheck]\<rparr>",
      THEN mp, OF t]
  note same = Z [THEN conjunct2, THEN conjunct2, THEN conjunct2, THEN conjunct2, THEN conjunct1,
      THEN mp, OF h1]
  note static_same = Z [THEN conjunct2, THEN conjunct2, THEN conjunct2, THEN conjunct2,
      THEN conjunct2, THEN conjunct1, THEN mp, OF h2]
  note run = Z [THEN conjunct2, THEN conjunct2, THEN conjunct2, THEN conjunct2, THEN conjunct2,
      THEN conjunct2, THEN conjunct1, THEN mp, OF conjI [OF oc gm]]
  note static_run = Z [THEN conjunct2, THEN conjunct2, THEN conjunct2, THEN conjunct2,
      THEN conjunct2, THEN conjunct2, THEN conjunct2, THEN mp, OF conjI [OF fc gs]]
  from same static_same run static_run 1 2 3 t oc gm fc gs show ?thesis
    by (simp add: observable_def demo_simps demo_env_def bridge_calls_def guard_calls_def
        call_outcome_def)
qed

section \<open>Field access\<close>

text \<open>
  C9 does not hold of the code. The claim says that without a signature \<^verbatim>\<open>GetField<T>\<close>
  and \<^verbatim>\<open>GetStaticField<T>\<close> resolve with the signature of the specialization for \<^verbatim>\<open>T\<close> and
  read through its member, and that with a signature no specialization for \<^verbatim>\<open>T\<close> is
  needed. The two paths are the branches of an ordinary \<^verbatim>\<open>if\<close>, so each instantiation
  contains both. For the eight primitive types the specialization, its signature and its
  field members exist, and still neither function is instantiated, in whatever environment
  and for whatever field: the branch for a supplied signature casts a \<^verbatim>\<open>jobject\<close> to
  \<^verbatim>\<open>T\<close>. For a reference type without specialization, as \<^verbatim>\<open>jclass\<close>, neither function
  is instantiated although a signature is supplied: the other branch names the members of
  \<^verbatim>\<open>JNITypeTraits<T>\<close>. At \<^verbatim>\<open>jstring\<close>, where both branches are well-formed, the call
  without a signature does what the claim says: the lookup with \<^verbatim>\<open>Ljava/lang/String;\<close>,
  then the read through the member of the specialization.
\<close>

theorem GetField_not_instantiated:
  "map (\<lambda>T. GetField rt T env obj fieldName None)
     [Tjboolean, Tjbyte, Tjchar, Tjshort, Tjint, Tjlong, Tjfloat, Tjdouble] =
     [None, None, None, None, None, None, None, None]
   \<and> map (\<lambda>T. GetStaticField rt T env className fieldName None)
     [Tjboolean, Tjbyte, Tjchar, Tjshort, Tjint, Tjlong, Tjfloat, Tjdouble] =
     [None, None, None, None, None, None, None, None]
   \<and> map (\<lambda>T. JNITypeTraits_signature T \<noteq> None \<and> JNITypeTraits_GetField rt T \<noteq> None
                \<and> JNITypeTraits_GetStaticField rt T \<noteq> None)
     [Tjboolean, Tjbyte, Tjchar, Tjshort, Tjint, Tjlong, Tjfloat, Tjdouble] =
     [True, True, True, True, True, True, True, True]
   \<and> map (\<lambda>T. static_cast_jobject T = None)
     [Tjboolean, Tjbyte, Tjchar, Tjshort, Tjint, Tjlong, Tjfloat, Tjdouble] =
     [True, True, True, True, True, True, True, True]
   \<and> GetField rt Tjclass env obj fieldName (Some ''Ljava/lang/Class;'') = None
   \<and> GetStaticField rt Tjclass env className fieldName (Some ''Ljava/lang/Class;'') = None
   \<and> JNITypeTraits Tjclass = None
   \<and> static_cast_jobject Tjclass \<noteq> None
   \<and> GetField demo_rt Tjint demo_env 1 ''value'' None = None
   \<and> GetStaticField demo_rt Tjlong demo_env ''java/lang/String'' ''value'' None = None
   \<and> GetField demo_rt Tjstring demo_env 1 ''value'' None =
       Some (Inr (RVal (JL 40)),
             \<lparr>heap = [], pending = nullptr,
              trace = [EGetObjectClass 1, EGetFieldID 10 ''value'' ''Ljava/lang/String;'',
                       EExceptionCheck, EGetField FObject 1 30, EExceptionCheck,
                       EDeleteLocalRef 10]\<rparr>)"
  by (simp add: GetField_def GetStaticField_def JNITypeTraits_signature_def
      JNITypeTraits_GetField_def JNITypeTraits_GetStaticField_def GetFieldID_def checked_eq
      foreign_ref_def foreign_val_def foreign_def demo_simps demo_env_def cast_result_def
      ScopedLocalRef_dtor_def ScopedLocalRef_ctor_def)

end
